theory Spec2Isabelle
  imports Main "HOL-Library.Sublist"
begin

section \<open>The external world\<close>

text \<open>
  The code reaches the outside through \<^verbatim>\<open>execa(command, args)\<close>, which resolves with the
  captured standard output or rejects, and through the \<^verbatim>\<open>fs\<close> module. An environment fixes
  the outcome of each of these operations: \<open>Inl\<close> is a rejection or a thrown error, \<open>Inr\<close> a
  normal return. \<^verbatim>\<open>process.cwd()\<close> and \<^verbatim>\<open>os.homedir()\<close> are calls into the system that
  can throw (the first does when the working directory has been removed), so their
  outcomes are sums too. The properties \<^verbatim>\<open>process.platform\<close>, \<^verbatim>\<open>process.version\<close>,
  \<^verbatim>\<open>process.arch\<close>, \<^verbatim>\<open>process.env.SHELL\<close> and the value of \<^verbatim>\<open>os.release()\<close> are
  fields of the environment. Two constants are computed when their module is loaded and
  are fields as well: \<^verbatim>\<open>WP_CLI_PATH\<close>, the location of the bundled phar, and
  \<^verbatim>\<open>CONFIG_DIR\<close> of the configuration module. The library functions \<^verbatim>\<open>path.join\<close>,
  \<^verbatim>\<open>JSON.parse\<close>, \<^verbatim>\<open>String.prototype.toLowerCase\<close> and \<^verbatim>\<open>String.prototype.trim\<close> are
  parameters: nothing is assumed about them, so every statement holds for the functions
  of the JavaScript runtime.
\<close>

datatype js_error = Error string

fun message :: "js_error \<Rightarrow> string" where
  "message (Error m) = m"

datatype json =
    JNull
  | JBool bool
  | JNumber string
  | JString string
  | JArray "json list"
  | JObject "(string \<times> json) list"

record env =
  execa :: "string \<Rightarrow> string list \<Rightarrow> js_error + string"
  existsSync :: "string \<Rightarrow> bool"
  readFileSync :: "string \<Rightarrow> js_error + string"
  writeFileSync :: "string \<Rightarrow> string \<Rightarrow> js_error option"
  unlinkSync :: "string \<Rightarrow> js_error option"
  JSON_parse :: "string \<Rightarrow> js_error + json"
  path_join :: "string list \<Rightarrow> string"
  toLowerCase :: "string \<Rightarrow> string"
  trim :: "string \<Rightarrow> string"
  WP_CLI_PATH :: string
  CONFIG_DIR :: string
  process_cwd :: "js_error + string"
  os_homedir :: "js_error + string"
  process_platform :: string
  os_release :: string
  process_version :: string
  process_arch :: string
  process_env_SHELL :: "string option"

text \<open>
  Every \<^verbatim>\<open>execa\<close> call is appended to a trace, so that a statement can say which
  external processes were started, and in which order.
\<close>

type_synonym invocation = "string \<times> string list"
type_synonym trace = "invocation list"

definition run_execa :: "env \<Rightarrow> string \<Rightarrow> string list \<Rightarrow> trace \<Rightarrow> (js_error + string) \<times> trace" where
  "run_execa e cmd args tr = (execa e cmd args, tr @ [(cmd, args)])"

section \<open>Strings\<close>

definition nl :: string where
  "nl = [CHR 0x0A]"

text \<open>\<^verbatim>\<open>Array.prototype.join\<close> on an array of strings.\<close>

fun js_join :: "string \<Rightarrow> string list \<Rightarrow> string" where
  "js_join sep [] = []"
| "js_join sep [x] = x"
| "js_join sep (x # y # ys) = x @ sep @ js_join sep (y # ys)"

text \<open>\<^verbatim>\<open>String.prototype.includes\<close>.\<close>

fun str_includes :: "string \<Rightarrow> string \<Rightarrow> bool" where
  "str_includes [] sub = (sub = [])"
| "str_includes (c # cs) sub = (prefix sub (c # cs) \<or> str_includes cs sub)"

text \<open>A string is truthy when it is neither \<^verbatim>\<open>null\<close> nor empty.\<close>

fun truthy_str :: "string option \<Rightarrow> bool" where
  "truthy_str None = False"
| "truthy_str (Some s) = (s \<noteq> [])"

section \<open>mysql-detector.js\<close>

definition COMMON_SOCKET_PATHS :: "string list" where
  "COMMON_SOCKET_PATHS =
    [''/tmp/mysql_3306.sock'',
     ''/tmp/mysql.sock'',
     ''/var/run/mysqld/mysqld.sock'',
     ''/Applications/MAMP/tmp/mysql/mysql.sock'',
     ''/opt/homebrew/var/mysql/mysql.sock'',
     ''/usr/local/var/mysql/mysql.sock'']"

definition TCP_OPTIONS :: "string list" where
  "TCP_OPTIONS = [''127.0.0.1'', ''localhost'']"

definition mysql_args :: "string option \<Rightarrow> string option \<Rightarrow> string \<Rightarrow> string list" where
  "mysql_args socketPath host user =
    (if truthy_str socketPath then [''--socket='' @ the socketPath]
     else if truthy_str host then [''-h'' @ the host]
     else [])
    @ [''-u'' @ user, ''-e'', ''SELECT 1'', ''--silent'']"

definition testMysqlConnection ::
  "env \<Rightarrow> string option \<Rightarrow> string option \<Rightarrow> string \<Rightarrow> trace \<Rightarrow> bool \<times> trace" where
  "testMysqlConnection e socketPath host user tr =
    (case run_execa e ''mysql'' (mysql_args socketPath host user) tr of
       (Inr out, tr') \<Rightarrow> (True, tr')
     | (Inl err, tr') \<Rightarrow> (False, tr'))"

text \<open>The two \<^verbatim>\<open>for\<close> loops of \<^verbatim>\<open>detectMySQLConnection\<close>; \<open>Some\<close> is the early return.\<close>

fun tcp_loop :: "env \<Rightarrow> string \<Rightarrow> string list \<Rightarrow> trace \<Rightarrow> string option \<times> trace" where
  "tcp_loop e user [] tr = (None, tr)"
| "tcp_loop e user (host # hosts) tr =
    (case testMysqlConnection e None (Some host) user tr of
       (True, tr') \<Rightarrow> (Some host, tr')
     | (False, tr') \<Rightarrow> tcp_loop e user hosts tr')"

fun socket_loop :: "env \<Rightarrow> string \<Rightarrow> string list \<Rightarrow> trace \<Rightarrow> string option \<times> trace" where
  "socket_loop e user [] tr = (None, tr)"
| "socket_loop e user (socketPath # paths) tr =
    (if existsSync e socketPath then
       (case testMysqlConnection e (Some socketPath) None user tr of
          (True, tr') \<Rightarrow> (Some (''localhost:'' @ socketPath), tr')
        | (False, tr') \<Rightarrow> socket_loop e user paths tr')
     else socket_loop e user paths tr)"

definition client_missing_message :: string where
  "client_missing_message = ''MySQL client is not installed or not in PATH. Please install MySQL.''"

definition no_connection_message :: string where
  "no_connection_message =
    ''Could not detect MySQL connection. Please ensure MySQL is running.'' @ nl @
    nl @ ''TCP/IP connections tried:'' @ nl @
    js_join nl (map (\<lambda>h. ''  - '' @ h) TCP_OPTIONS) @
    nl @ nl @ ''Socket locations checked:'' @ nl @
    js_join nl (map (\<lambda>p. ''  - '' @ p) COMMON_SOCKET_PATHS)"

definition detectMySQLConnection :: "env \<Rightarrow> string \<Rightarrow> trace \<Rightarrow> (js_error + string) \<times> trace" where
  "detectMySQLConnection e user tr =
    (case run_execa e ''mysql'' [''--version''] tr of
       (Inl err, tr1) \<Rightarrow> (Inl (Error client_missing_message), tr1)
     | (Inr out, tr1) \<Rightarrow>
        (case tcp_loop e user TCP_OPTIONS tr1 of
           (Some host, tr2) \<Rightarrow> (Inr host, tr2)
         | (None, tr2) \<Rightarrow>
            (case socket_loop e user COMMON_SOCKET_PATHS tr2 of
               (Some conn, tr3) \<Rightarrow> (Inr conn, tr3)
             | (None, tr3) \<Rightarrow> (Inl (Error no_connection_message), tr3))))"

text \<open>
  \<^verbatim>\<open>const connectionCache = {}\<close> is an ordinary object: reading a property that the
  object does not own falls through to \<^verbatim>\<open>Object.prototype\<close>, whose members are all
  truthy (functions, and the prototype object itself for \<^verbatim>\<open>__proto__\<close>). The own
  properties are a map from names to strings; a read yields a stored string, an inherited
  member, or \<^verbatim>\<open>undefined\<close>. Assigning a string to \<^verbatim>\<open>__proto__\<close> is ignored
  by the setter and creates no own property.
\<close>

datatype js_value = JSUndefined | JSString string | JSInherited string

definition Object_prototype_keys :: "string list" where
  "Object_prototype_keys =
    [''constructor'', ''__defineGetter__'', ''__defineSetter__'', ''hasOwnProperty'',
     ''__lookupGetter__'', ''__lookupSetter__'', ''isPrototypeOf'', ''propertyIsEnumerable'',
     ''toString'', ''valueOf'', ''__proto__'', ''toLocaleString'']"

type_synonym cache = "string \<rightharpoonup> string"

definition get_prop :: "cache \<Rightarrow> string \<Rightarrow> js_value" where
  "get_prop c k =
    (case c k of
       Some v \<Rightarrow> JSString v
     | None \<Rightarrow> if k \<in> set Object_prototype_keys then JSInherited k else JSUndefined)"

definition set_prop :: "cache \<Rightarrow> string \<Rightarrow> string \<Rightarrow> cache" where
  "set_prop c k v = (if k = ''__proto__'' then c else c(k \<mapsto> v))"

fun truthy :: "js_value \<Rightarrow> bool" where
  "truthy JSUndefined = False"
| "truthy (JSString s) = (s \<noteq> [])"
| "truthy (JSInherited k) = True"

definition connectionCache :: cache where
  "connectionCache = Map.empty"

definition getMySQLConnection ::
  "env \<Rightarrow> string \<Rightarrow> cache \<times> trace \<Rightarrow> (js_error + js_value) \<times> cache \<times> trace" where
  "getMySQLConnection e user st =
    (case st of (c, tr) \<Rightarrow>
      if \<not> truthy (get_prop c user) then
        (case detectMySQLConnection e user tr of
           (Inl err, tr') \<Rightarrow> (Inl err, c, tr')
         | (Inr conn, tr') \<Rightarrow>
            (let c' = set_prop c user conn in (Inr (get_prop c' user), c', tr')))
      else (Inr (get_prop c user), c, tr))"

section \<open>Text helpers of the diagnostics\<close>

definition is_digit :: "char \<Rightarrow> bool" where
  "is_digit c = (48 \<le> (of_char c :: nat) \<and> (of_char c :: nat) \<le> 57)"

text \<open>
  The capture group of the two version patterns, at the start of a string: three non-empty
  runs of decimal digits separated by dots. Each run is followed by a dot or by the end of
  the pattern, so the greedy match of a run is the only one.
\<close>

definition match_triple :: "string \<Rightarrow> string option" where
  "match_triple s =
    (let d1 = takeWhile is_digit s; r1 = dropWhile is_digit s in
     if d1 = [] then None else
     case r1 of
       [] \<Rightarrow> None
     | c1 # s2 \<Rightarrow>
        if c1 \<noteq> CHR ''.'' then None else
        (let d2 = takeWhile is_digit s2; r2 = dropWhile is_digit s2 in
         if d2 = [] then None else
         case r2 of
           [] \<Rightarrow> None
         | c2 # s3 \<Rightarrow>
            if c2 \<noteq> CHR ''.'' then None else
            (let d3 = takeWhile is_digit s3 in
             if d3 = [] then None else Some (d1 @ ''.'' @ d2 @ ''.'' @ d3))))"

text \<open>
  \<^verbatim>\<open>stdout.match(...)?.[1]\<close> for a pattern made of a literal prefix \<open>lit\<close> and the
  capture group: the capture of the leftmost match, or \<open>None\<close> for \<^verbatim>\<open>undefined\<close>.
\<close>

fun match_version :: "string \<Rightarrow> string \<Rightarrow> string option" where
  "match_version lit [] = None"
| "match_version lit (c # cs) =
    (case (if prefix lit (c # cs) then match_triple (drop (length lit) (c # cs)) else None) of
       Some v \<Rightarrow> Some v
     | None \<Rightarrow> match_version lit cs)"

text \<open>\<^verbatim>\<open>String.prototype.split\<close> with a one-character separator.\<close>

fun split_on :: "char \<Rightarrow> string \<Rightarrow> string list" where
  "split_on sep [] = [[]]"
| "split_on sep (c # cs) =
    (if c = sep then [] # split_on sep cs
     else (case split_on sep cs of [] \<Rightarrow> [[c]] | p # ps \<Rightarrow> (c # p) # ps))"

text \<open>
  \<^verbatim>\<open>Number\<close> on a non-empty string of decimal digits. The code only compares the result
  with \<open>7\<close> and \<open>4\<close>; rounding to a double is monotone and exact on small integers, so
  these comparisons agree with the ones on the natural number.
\<close>

definition Number :: "string \<Rightarrow> nat" where
  "Number s = foldl (\<lambda>n c. 10 * n + ((of_char c :: nat) - 48)) 0 s"

text \<open>
  Lower-casing and trimming on the ASCII range, which the example environments use for
  \<^verbatim>\<open>toLowerCase\<close> and \<^verbatim>\<open>trim\<close>.
\<close>

definition lower_char :: "char \<Rightarrow> char" where
  "lower_char c =
    (if 65 \<le> (of_char c :: nat) \<and> (of_char c :: nat) \<le> 90
     then char_of ((of_char c :: nat) + 32) else c)"

definition ascii_toLowerCase :: "string \<Rightarrow> string" where
  "ascii_toLowerCase s = map lower_char s"

definition is_space :: "char \<Rightarrow> bool" where
  "is_space c = ((of_char c :: nat) = 32 \<or> (9 \<le> (of_char c :: nat) \<and> (of_char c :: nat) \<le> 13))"

definition ascii_trim :: "string \<Rightarrow> string" where
  "ascii_trim s = rev (dropWhile is_space (rev (dropWhile is_space s)))"

section \<open>wp-cli-manager.js, herd-manager.js, config.js\<close>

definition getWpCliCommand :: "env \<Rightarrow> string \<times> string" where
  "getWpCliCommand e = (''php'', WP_CLI_PATH e)"

definition isHerdInstalled :: "env \<Rightarrow> trace \<Rightarrow> bool \<times> trace" where
  "isHerdInstalled e tr =
    (case run_execa e ''herd'' [''--version''] tr of
       (Inr out, tr') \<Rightarrow> (True, tr')
     | (Inl err, tr') \<Rightarrow> (False, tr'))"

definition CONFIG_FILE :: "env \<Rightarrow> string" where
  "CONFIG_FILE e = path_join e [CONFIG_DIR e, ''config.json'']"

definition getConfig :: "env \<Rightarrow> json" where
  "getConfig e =
    (if \<not> existsSync e (CONFIG_FILE e) then JObject []
     else
       (case readFileSync e (CONFIG_FILE e) of
          Inl err \<Rightarrow> JObject []
        | Inr data \<Rightarrow>
           (case JSON_parse e data of
              Inl err \<Rightarrow> JObject []
            | Inr config \<Rightarrow> config)))"

text \<open>
  \<^verbatim>\<open>Object.keys(v).length\<close>: a type error on \<^verbatim>\<open>null\<close>, the number of own enumerable
  properties otherwise.
\<close>

fun Object_keys_length :: "json \<Rightarrow> js_error + nat" where
  "Object_keys_length JNull = Inl (Error ''Cannot convert undefined or null to object'')"
| "Object_keys_length (JBool b) = Inr 0"
| "Object_keys_length (JNumber n) = Inr 0"
| "Object_keys_length (JString s) = Inr (length s)"
| "Object_keys_length (JArray xs) = Inr (length xs)"
| "Object_keys_length (JObject kvs) = Inr (length (remdups (map fst kvs)))"

section \<open>doctor.js\<close>

record issue =
  description :: string
  fix_prop :: string

record DoctorCheck =
  checks :: "string list"
  issues :: "issue list"

text \<open>The constructor.\<close>

definition DoctorCheck_new :: DoctorCheck where
  "DoctorCheck_new = \<lparr>checks = [], issues = []\<rparr>"

definition push_issue :: "string \<Rightarrow> string \<Rightarrow> DoctorCheck \<Rightarrow> DoctorCheck" where
  "push_issue desc hint d = d\<lparr>issues := issues d @ [\<lparr>description = desc, fix_prop = hint\<rparr>]\<rparr>"

text \<open>
  The checks return object literals of different shapes; a result is a record in which a
  property that the literal does not have is \<open>None\<close>.
\<close>

record check_result =
  ok :: bool
  error :: "string option"
  version :: "string option"
  missingExtensions :: "string list option"
  connection :: "string option"
  installed :: "bool option"
  failedDirs :: "string list option"
  exists_prop :: "bool option"
  path_prop :: "string option"
  hasSettings :: "bool option"

definition result :: "bool \<Rightarrow> check_result" where
  "result b =
    \<lparr>ok = b, error = None, version = None, missingExtensions = None, connection = None,
     installed = None, failedDirs = None, exists_prop = None, path_prop = None,
     hasSettings = None\<rparr>"

type_synonym 'a outcome = "(js_error + 'a) \<times> DoctorCheck \<times> trace"

text \<open>The body of the \<^verbatim>\<open>try\<close> block of \<^verbatim>\<open>checkWpCli\<close>, then the method with its handler.\<close>

definition checkWpCli_try :: "env \<Rightarrow> DoctorCheck \<times> trace \<Rightarrow> check_result outcome" where
  "checkWpCli_try e st =
    (case st of (d, tr) \<Rightarrow>
     case getWpCliCommand e of (phpCmd, wpCliPath) \<Rightarrow>
      if \<not> existsSync e wpCliPath then
        (Inr ((result False)\<lparr>error := Some ''Not found''\<rparr>),
         push_issue ''WP-CLI not found'' ''Will be auto-downloaded on first site creation'' d,
         tr)
      else
        (case run_execa e phpCmd [wpCliPath, ''--version''] tr of
           (Inl err, tr') \<Rightarrow> (Inl err, d, tr')
         | (Inr stdout, tr') \<Rightarrow>
            (Inr ((result True)\<lparr>version :=
                    Some (case match_version ''WP-CLI '' stdout of
                            Some v \<Rightarrow> v | None \<Rightarrow> ''unknown'')\<rparr>),
             d, tr')))"

definition checkWpCli :: "env \<Rightarrow> DoctorCheck \<times> trace \<Rightarrow> check_result outcome" where
  "checkWpCli e st =
    (case checkWpCli_try e st of
       (Inr r, d, tr) \<Rightarrow> (Inr r, d, tr)
     | (Inl err, d, tr) \<Rightarrow>
        (Inr ((result False)\<lparr>error := Some ''Not accessible''\<rparr>),
         push_issue ''WP-CLI not accessible''
           ''Ensure PHP is installed and WP-CLI phar is executable'' d,
         tr))"

text \<open>
  \<^verbatim>\<open>major < 7 || (major === 7 && minor < 4)\<close> on the destructured array; a missing
  element is \<^verbatim>\<open>undefined\<close>, and every comparison with it is false.
\<close>

fun below_minimum :: "nat list \<Rightarrow> bool" where
  "below_minimum [] = False"
| "below_minimum [major] = (major < 7)"
| "below_minimum (major # minor # rest) = (major < 7 \<or> (major = 7 \<and> minor < 4))"

definition required_extensions :: "string list" where
  "required_extensions = [''mysqli'', ''curl'', ''json'', ''mbstring'']"

definition checkPhp_try :: "env \<Rightarrow> DoctorCheck \<times> trace \<Rightarrow> check_result outcome" where
  "checkPhp_try e st =
    (case st of (d, tr) \<Rightarrow>
     case run_execa e ''php'' [''--version''] tr of
       (Inl err, tr1) \<Rightarrow> (Inl err, d, tr1)
     | (Inr stdout, tr1) \<Rightarrow>
        (case match_version ''PHP '' stdout of
           None \<Rightarrow> (Inl (Error ''Could not parse PHP version''), d, tr1)
         | Some ver \<Rightarrow>
            (let d1 =
               (if below_minimum (map Number (split_on CHR ''.'' ver)) then
                  push_issue (''PHP '' @ ver @ '' is outdated (minimum: 7.4)'')
                    ''Update PHP: brew upgrade php (macOS) or apt upgrade php (Linux)'' d
                else d)
             in
             case run_execa e ''php'' [''-m''] tr1 of
               (Inl err, tr2) \<Rightarrow> (Inl err, d1, tr2)
             | (Inr extensions, tr2) \<Rightarrow>
                (let missing =
                   filter (\<lambda>ext. \<not> str_includes (toLowerCase e extensions) (toLowerCase e ext))
                     required_extensions;
                     d2 =
                   (if length missing > 0 then
                      push_issue (''Missing PHP extensions: '' @ js_join '', '' missing)
                        ''Install missing extensions via your PHP package manager'' d1
                    else d1)
                 in
                 (Inr ((result True)\<lparr>version := Some ver, missingExtensions := Some missing\<rparr>),
                  d2, tr2)))))"

definition checkPhp :: "env \<Rightarrow> DoctorCheck \<times> trace \<Rightarrow> check_result outcome" where
  "checkPhp e st =
    (case checkPhp_try e st of
       (Inr r, d, tr) \<Rightarrow> (Inr r, d, tr)
     | (Inl err, d, tr) \<Rightarrow>
        (Inr ((result False)\<lparr>error := Some ''Not installed''\<rparr>),
         push_issue ''PHP not found''
           ''Install PHP: brew install php (macOS) or apt install php (Linux)'' d,
         tr))"

text \<open>
  The parts of \<^verbatim>\<open>checkPhp\<close> that the statements below refer to: the issue pushed for an
  outdated version, the \<^verbatim>\<open>missing\<close> array, and the issue pushed for it.
\<close>

definition outdated_issues :: "string \<Rightarrow> issue list" where
  "outdated_issues ver =
    (if below_minimum (map Number (split_on CHR ''.'' ver)) then
       [\<lparr>description = ''PHP '' @ ver @ '' is outdated (minimum: 7.4)'',
         fix_prop = ''Update PHP: brew upgrade php (macOS) or apt upgrade php (Linux)''\<rparr>]
     else [])"

definition missing_extensions :: "env \<Rightarrow> string \<Rightarrow> string list" where
  "missing_extensions e extensions =
    filter (\<lambda>ext. \<not> str_includes (toLowerCase e extensions) (toLowerCase e ext))
      required_extensions"

definition missing_issues :: "env \<Rightarrow> string \<Rightarrow> issue list" where
  "missing_issues e extensions =
    (if length (missing_extensions e extensions) > 0 then
       [\<lparr>description =
           ''Missing PHP extensions: '' @ js_join '', '' (missing_extensions e extensions),
         fix_prop = ''Install missing extensions via your PHP package manager''\<rparr>]
     else [])"

definition php_not_found_issue :: issue where
  "php_not_found_issue =
    \<lparr>description = ''PHP not found'',
     fix_prop = ''Install PHP: brew install php (macOS) or apt install php (Linux)''\<rparr>"

definition checkMySQL :: "env \<Rightarrow> DoctorCheck \<times> trace \<Rightarrow> check_result outcome" where
  "checkMySQL e st =
    (case st of (d, tr) \<Rightarrow>
     case run_execa e ''mysql'' [''--version''] tr of
       (Inl err, tr1) \<Rightarrow>
        (Inr ((result False)\<lparr>error := Some ''MySQL client not installed''\<rparr>),
         push_issue ''MySQL client not found''
           ''Install MySQL: brew install mysql (macOS) or install Laravel Herd'' d,
         tr1)
     | (Inr out, tr1) \<Rightarrow>
        (case detectMySQLConnection e ''root'' tr1 of
           (Inr conn, tr2) \<Rightarrow> (Inr ((result True)\<lparr>connection := Some conn\<rparr>), d, tr2)
         | (Inl err, tr2) \<Rightarrow>
            (Inr ((result False)\<lparr>error := Some ''Not accessible''\<rparr>),
             push_issue ''MySQL not accessible''
               ''Start MySQL: brew services start mysql, or install/start Laravel Herd'' d,
             tr2)))"

definition checkHerd_try :: "env \<Rightarrow> DoctorCheck \<times> trace \<Rightarrow> check_result outcome" where
  "checkHerd_try e st =
    (case st of (d, tr) \<Rightarrow>
     case isHerdInstalled e tr of
       (True, tr1) \<Rightarrow>
        (case run_execa e ''herd'' [''--version''] tr1 of
           (Inl err, tr2) \<Rightarrow> (Inl err, d, tr2)
         | (Inr stdout, tr2) \<Rightarrow>
            (Inr ((result True)\<lparr>installed := Some True, version := Some (trim e stdout)\<rparr>),
             d, tr2))
     | (False, tr1) \<Rightarrow> (Inr ((result True)\<lparr>installed := Some False\<rparr>), d, tr1))"

definition checkHerd :: "env \<Rightarrow> DoctorCheck \<times> trace \<Rightarrow> check_result outcome" where
  "checkHerd e st =
    (case checkHerd_try e st of
       (Inr r, d, tr) \<Rightarrow> (Inr r, d, tr)
     | (Inl err, d, tr) \<Rightarrow> (Inr ((result True)\<lparr>installed := Some False\<rparr>), d, tr))"

text \<open>
  The loop of \<^verbatim>\<open>checkPermissions\<close>: the write and the removal of the marker file are
  inside one \<^verbatim>\<open>try\<close>, whose handler records the directory.
\<close>

fun permission_loop ::
  "env \<Rightarrow> string list \<Rightarrow> string list \<times> DoctorCheck \<Rightarrow> string list \<times> DoctorCheck" where
  "permission_loop e [] acc = acc"
| "permission_loop e (dir # dirs) acc =
    (case acc of (failed, d) \<Rightarrow>
     let testFile = path_join e [dir, ''.wpmax-test''] in
     case (case writeFileSync e testFile ''test'' of
             Some err \<Rightarrow> Some err
           | None \<Rightarrow> unlinkSync e testFile) of
       None \<Rightarrow> permission_loop e dirs (failed, d)
     | Some err \<Rightarrow>
        permission_loop e dirs
          (failed @ [dir],
           push_issue (''No write permission: '' @ dir) (''chmod 755 '' @ dir) d))"

text \<open>
  \<^verbatim>\<open>checkPermissions\<close> calls \<^verbatim>\<open>process.cwd()\<close> and \<^verbatim>\<open>os.homedir()\<close> before its
  loop, outside every \<^verbatim>\<open>try\<close>: an exception of either leaves the method.
\<close>

definition checkPermissions :: "env \<Rightarrow> DoctorCheck \<times> trace \<Rightarrow> check_result outcome" where
  "checkPermissions e st =
    (case st of (d, tr) \<Rightarrow>
     case process_cwd e of
       Inl err \<Rightarrow> (Inl err, d, tr)
     | Inr cwd \<Rightarrow>
    (case os_homedir e of
       Inl err \<Rightarrow> (Inl err, d, tr)
     | Inr home \<Rightarrow>
        (let sitesDir = path_join e [home, ''Sites''];
             testDirs = [cwd] @ (if existsSync e sitesDir then [sitesDir] else [])
         in
         case permission_loop e testDirs ([], d) of (failed, d') \<Rightarrow>
           if length failed > 0 then (Inr ((result False)\<lparr>failedDirs := Some failed\<rparr>), d', tr)
           else (Inr (result True), d', tr))))"

definition checkConfig_try :: "env \<Rightarrow> DoctorCheck \<times> trace \<Rightarrow> check_result outcome" where
  "checkConfig_try e st =
    (case st of (d, tr) \<Rightarrow>
     let config = getConfig e in
     case os_homedir e of
       Inl err \<Rightarrow> (Inl err, d, tr)
     | Inr home \<Rightarrow>
        (let configPath = path_join e [home, ''.config'', ''wpmax'', ''config.json''];
             ex = existsSync e configPath
         in
         case Object_keys_length config of
           Inl err \<Rightarrow> (Inl err, d, tr)
         | Inr n \<Rightarrow>
            (Inr ((result True)\<lparr>exists_prop := Some ex, path_prop := Some configPath,
                    hasSettings := Some (n > 0)\<rparr>),
             d, tr)))"

definition checkConfig :: "env \<Rightarrow> DoctorCheck \<times> trace \<Rightarrow> check_result outcome" where
  "checkConfig e st =
    (case checkConfig_try e st of
       (Inr r, d, tr) \<Rightarrow> (Inr r, d, tr)
     | (Inl err, d, tr) \<Rightarrow>
        (Inr ((result False)\<lparr>error := Some (message err)\<rparr>),
         push_issue ''Config file error'' ''Run any wpmax command to regenerate config'' d,
         tr))"

record environment_info =
  os :: string
  osVersion :: string
  node :: string
  arch :: string
  shell :: string
  configPath :: string

definition getEnvironmentInfo :: "env \<Rightarrow> js_error + environment_info" where
  "getEnvironmentInfo e =
    (case os_homedir e of
       Inl err \<Rightarrow> Inl err
     | Inr home \<Rightarrow>
        Inr \<lparr>os = process_platform e,
             osVersion = os_release e,
             node = process_version e,
             arch = process_arch e,
             shell = (if truthy_str (process_env_SHELL e) then the (process_env_SHELL e)
                      else ''unknown''),
             configPath = path_join e [home, ''.config'', ''wpmax'']\<rparr>)"

record report =
  wpCli :: check_result
  php :: check_result
  mysql :: check_result
  herd :: check_result
  permissions :: check_result
  config :: check_result
  environment :: environment_info
  report_issues :: "issue list"

text \<open>
  \<^verbatim>\<open>runAllChecks\<close> awaits the six checks in turn and then calls
  \<^verbatim>\<open>getEnvironmentInfo\<close>, with no handler of its own: an exception of any of them leaves
  the method at that point. The report refers to the issue array of the instance;
  \<open>report_issues\<close> is the content of that array when the report is returned.
\<close>

definition runAllChecks :: "env \<Rightarrow> DoctorCheck \<times> trace \<Rightarrow> report outcome" where
  "runAllChecks e st =
    (case checkWpCli e st of
       (Inl err, st1) \<Rightarrow> (Inl err, st1)
     | (Inr r1, st1) \<Rightarrow>
    (case checkPhp e st1 of
       (Inl err, st2) \<Rightarrow> (Inl err, st2)
     | (Inr r2, st2) \<Rightarrow>
    (case checkMySQL e st2 of
       (Inl err, st3) \<Rightarrow> (Inl err, st3)
     | (Inr r3, st3) \<Rightarrow>
    (case checkHerd e st3 of
       (Inl err, st4) \<Rightarrow> (Inl err, st4)
     | (Inr r4, st4) \<Rightarrow>
    (case checkPermissions e st4 of
       (Inl err, st5) \<Rightarrow> (Inl err, st5)
     | (Inr r5, st5) \<Rightarrow>
    (case checkConfig e st5 of
       (Inl err, st6) \<Rightarrow> (Inl err, st6)
     | (Inr r6, d6, tr6) \<Rightarrow>
    (case getEnvironmentInfo e of
       Inl err \<Rightarrow> (Inl err, d6, tr6)
     | Inr info \<Rightarrow>
        (Inr \<lparr>wpCli = r1, php = r2, mysql = r3, herd = r4, permissions = r5, config = r6,
              environment = info, report_issues = issues d6\<rparr>,
         d6, tr6))))))))"

text \<open>The issues that a check appends when it runs on a fresh instance.\<close>

definition pushed :: "(DoctorCheck \<times> trace \<Rightarrow> check_result outcome) \<Rightarrow> issue list" where
  "pushed check = issues (fst (snd (check (DoctorCheck_new, []))))"

section \<open>The trial order of the prober, as the specification words it\<close>

text \<open>
  The precondition is that the client answers its version invocation; without it no
  candidate is tried. The candidates are the TCP host \<open>127.0.0.1\<close>, the TCP host
  \<open>localhost\<close>, then the configured socket paths in declared order. A socket candidate whose path does not exist
  is skipped. The first candidate that is not skipped and whose probe succeeds wins; the
  probes that run are those of the candidates up to and including the winner that are not
  skipped. A TCP winner is encoded as the bare host, a socket winner as \<open>localhost:\<close>
  followed by the path.
\<close>

datatype ConnectionCandidate = TCP string | Socket string

definition spec_candidates :: "ConnectionCandidate list" where
  "spec_candidates = [TCP ''127.0.0.1'', TCP ''localhost''] @ map Socket COMMON_SOCKET_PATHS"

fun spec_encode :: "ConnectionCandidate \<Rightarrow> string" where
  "spec_encode (TCP host) = host"
| "spec_encode (Socket p) = ''localhost:'' @ p"

fun spec_skipped :: "env \<Rightarrow> ConnectionCandidate \<Rightarrow> bool" where
  "spec_skipped e (TCP host) = False"
| "spec_skipped e (Socket p) = (\<not> existsSync e p)"

fun probe :: "string \<Rightarrow> ConnectionCandidate \<Rightarrow> invocation" where
  "probe user (TCP host) = (''mysql'', mysql_args None (Some host) user)"
| "probe user (Socket p) = (''mysql'', mysql_args (Some p) None user)"

definition spec_succeeds :: "env \<Rightarrow> string \<Rightarrow> ConnectionCandidate \<Rightarrow> bool" where
  "spec_succeeds e user c =
    (\<not> spec_skipped e c \<and> \<not> isl (execa e (fst (probe user c)) (snd (probe user c))))"

definition upto_first :: "('a \<Rightarrow> bool) \<Rightarrow> 'a list \<Rightarrow> 'a list" where
  "upto_first P xs = takeWhile (\<lambda>x. \<not> P x) xs @ take 1 (dropWhile (\<lambda>x. \<not> P x) xs)"

definition spec_probed :: "env \<Rightarrow> string \<Rightarrow> ConnectionCandidate list" where
  "spec_probed e user =
    filter (\<lambda>c. \<not> spec_skipped e c) (upto_first (spec_succeeds e user) spec_candidates)"

definition spec_detect :: "env \<Rightarrow> string \<Rightarrow> trace \<Rightarrow> (js_error + string) \<times> trace" where
  "spec_detect e user tr =
    (if isl (execa e ''mysql'' [''--version'']) then
       (Inl (Error client_missing_message), tr @ [(''mysql'', [''--version''])])
     else
       (case find (spec_succeeds e user) spec_candidates of
          Some c \<Rightarrow> Inr (spec_encode c)
        | None \<Rightarrow> Inl (Error no_connection_message),
        tr @ (''mysql'', [''--version'']) # map (probe user) (spec_probed e user)))"

section \<open>Example environments\<close>

text \<open>Nothing is installed, nothing exists, nothing can be written.\<close>

definition env_none :: env where
  "env_none =
    \<lparr>execa = (\<lambda>cmd args. Inl (Error ''spawn ENOENT'')),
     existsSync = (\<lambda>p. False),
     readFileSync = (\<lambda>p. Inl (Error ''ENOENT: no such file or directory'')),
     writeFileSync = (\<lambda>p content. Some (Error ''EACCES: permission denied'')),
     unlinkSync = (\<lambda>p. Some (Error ''ENOENT: no such file or directory'')),
     JSON_parse = (\<lambda>s. Inl (Error ''Unexpected end of JSON input'')),
     path_join = js_join ''/'',
     toLowerCase = ascii_toLowerCase,
     trim = ascii_trim,
     WP_CLI_PATH = ''/opt/wpmax/bin/wp-cli.phar'',
     CONFIG_DIR = ''/home/dev/.config/wpmax'',
     process_cwd = Inr ''/home/dev/project'',
     os_homedir = Inr ''/home/dev'',
     process_platform = ''linux'',
     os_release = ''6.1.0'',
     process_version = ''v20.11.0'',
     process_arch = ''x64'',
     process_env_SHELL = None\<rparr>"

text \<open>
  The client is installed, no server listens on TCP, two socket files exist and the
  server answers on both.
\<close>

definition env_socket :: env where
  "env_socket = env_none
    \<lparr>execa := (\<lambda>cmd args.
        if cmd = ''mysql'' \<and> args = [''--version''] then Inr ''mysql  Ver 8.0.33''
        else if cmd = ''mysql'' \<and> args = mysql_args (Some ''/tmp/mysql.sock'') None ''root''
          then Inr ''1''
        else if cmd = ''mysql'' \<and>
                args = mysql_args (Some ''/var/run/mysqld/mysqld.sock'') None ''root''
          then Inr ''1''
        else Inl (Error ''ERROR 2002 (HY000)'')),
      existsSync := (\<lambda>p. p = ''/tmp/mysql.sock'' \<or> p = ''/var/run/mysqld/mysqld.sock'')\<rparr>"

text \<open>The client is installed and the server is down; one stale socket file exists.\<close>

definition env_down :: env where
  "env_down = env_none
    \<lparr>execa := (\<lambda>cmd args.
        if cmd = ''mysql'' \<and> args = [''--version''] then Inr ''mysql  Ver 8.0.33''
        else Inl (Error ''ERROR 2002 (HY000)'')),
      existsSync := (\<lambda>p. p = ''/tmp/mysql.sock'')\<rparr>"

text \<open>The client is installed and the server answers every probe.\<close>

definition env_tcp :: env where
  "env_tcp = env_none
    \<lparr>execa := (\<lambda>cmd args.
        if cmd = ''mysql'' then Inr ''mysql  Ver 8.0.33'' else Inl (Error ''spawn ENOENT''))\<rparr>"

text \<open>
  The bundled phar exists and PHP is not installed (\<open>env_phar\<close>); PHP 7.3.0 with all four
  required extensions (\<open>env_php73\<close>); PHP 7.3.0 whose module listing fails
  (\<open>env_php73_broken\<close>); a \<^verbatim>\<open>php\<close> command that runs and prints a banner without a
  \<^verbatim>\<open>PHP x.y.z\<close> version (\<open>env_hhvm\<close>).
\<close>

definition env_phar :: env where
  "env_phar = env_none\<lparr>existsSync := (\<lambda>p. p = ''/opt/wpmax/bin/wp-cli.phar'')\<rparr>"

definition php_modules :: string where
  "php_modules = ''mysqli'' @ nl @ ''curl'' @ nl @ ''json'' @ nl @ ''mbstring''"

definition env_php73 :: env where
  "env_php73 = env_none
    \<lparr>execa := (\<lambda>cmd args.
        if cmd = ''php'' \<and> args = [''--version''] then Inr ''PHP 7.3.0 (cli)''
        else if cmd = ''php'' \<and> args = [''-m'']
          then Inr php_modules
        else Inl (Error ''spawn ENOENT''))\<rparr>"

definition env_php73_broken :: env where
  "env_php73_broken = env_none
    \<lparr>execa := (\<lambda>cmd args.
        if cmd = ''php'' \<and> args = [''--version''] then Inr ''PHP 7.3.0 (cli)''
        else Inl (Error ''Command failed with exit code 255''))\<rparr>"

definition env_hhvm :: env where
  "env_hhvm = env_none
    \<lparr>execa := (\<lambda>cmd args.
        if cmd = ''php'' \<and> args = [''--version''] then Inr ''HipHop VM 3.30.12 (rel)''
        else if cmd = ''php'' \<and> args = [''-m'']
          then Inr php_modules
        else Inl (Error ''spawn ENOENT''))\<rparr>"

text \<open>As \<open>env_none\<close>, and the working directory of the process has been removed.\<close>

definition env_cwd_gone :: env where
  "env_cwd_gone = env_none
    \<lparr>process_cwd := Inl (Error ''ENOENT: no such file or directory, uv_cwd'')\<rparr>"

section \<open>Strings: lemmas\<close>

lemma str_includes_iff: "str_includes s sub \<longleftrightarrow> (\<exists>ps ss. s = ps @ sub @ ss)"
proof (induction s)
  case Nil
  then show ?case by auto
next
  case (Cons c cs)
  show ?case
  proof
    assume "str_includes (c # cs) sub"
    then consider "prefix sub (c # cs)" | "str_includes cs sub" by auto
    then show "\<exists>ps ss. c # cs = ps @ sub @ ss"
    proof cases
      case 1
      then obtain ss where "c # cs = sub @ ss" by (auto simp: prefix_def)
      then have "c # cs = [] @ sub @ ss" by simp
      then show ?thesis by blast
    next
      case 2
      with Cons.IH obtain ps ss where "cs = ps @ sub @ ss" by blast
      then have "c # cs = (c # ps) @ sub @ ss" by simp
      then show ?thesis by blast
    qed
  next
    assume "\<exists>ps ss. c # cs = ps @ sub @ ss"
    then obtain ps ss where eq: "c # cs = ps @ sub @ ss" by blast
    show "str_includes (c # cs) sub"
    proof (cases ps)
      case Nil
      with eq have "prefix sub (c # cs)" by (simp add: prefix_def)
      then show ?thesis by simp
    next
      case (Cons p ps')
      with eq have "cs = ps' @ sub @ ss" by simp
      with Cons.IH have "str_includes cs sub" by blast
      then show ?thesis by simp
    qed
  qed
qed

lemma str_includes_appendI: "str_includes (ps @ sub @ ss) sub"
  by (auto simp: str_includes_iff)

lemma str_includes_left: "str_includes a sub \<Longrightarrow> str_includes (a @ b) sub"
  unfolding str_includes_iff by (metis append.assoc)

lemma str_includes_right: "str_includes b sub \<Longrightarrow> str_includes (a @ b) sub"
  unfolding str_includes_iff by (metis append.assoc)

lemma str_includes_join:
  "x \<in> set xs \<Longrightarrow> str_includes (js_join sep (map (\<lambda>h. pre @ h) xs)) x"
proof (induction sep xs rule: js_join.induct)
  case (1 sep)
  then show ?case by simp
next
  case (2 sep y)
  then have "x = y" by simp
  then show ?case using str_includes_appendI [of pre x "[]"] by simp
next
  case (3 sep y z zs)
  show ?case
  proof (cases "x = y")
    case True
    have "str_includes (pre @ x @ (sep @ js_join sep (map (\<lambda>h. pre @ h) (z # zs)))) x"
      by (rule str_includes_appendI)
    with True show ?thesis by simp
  next
    case False
    with 3 have "str_includes (js_join sep (map (\<lambda>h. pre @ h) (z # zs))) x" by simp
    then have "str_includes ((pre @ y @ sep) @ js_join sep (map (\<lambda>h. pre @ h) (z # zs))) x"
      by (rule str_includes_right)
    then show ?thesis by simp
  qed
qed

section \<open>The connection prober\<close>

lemma testMysqlConnection_eq:
  "testMysqlConnection e sp h user tr =
     (\<not> isl (execa e ''mysql'' (mysql_args sp h user)), tr @ [(''mysql'', mysql_args sp h user)])"
  by (simp add: testMysqlConnection_def run_execa_def split: sum.splits)

lemma upto_first_Nil: "upto_first P [] = []"
  by (simp add: upto_first_def)

lemma upto_first_Cons: "upto_first P (x # xs) = (if P x then [x] else x # upto_first P xs)"
  by (simp add: upto_first_def)

lemma upto_first_append:
  "upto_first P (xs @ ys) = (if \<exists>x\<in>set xs. P x then upto_first P xs else xs @ upto_first P ys)"
  by (induction xs) (auto simp: upto_first_Nil upto_first_Cons)

lemma find_append:
  "find P (xs @ ys) = (case find P xs of Some x \<Rightarrow> Some x | None \<Rightarrow> find P ys)"
  by (induction xs) auto

lemma tcp_loop_eq:
  "tcp_loop e user hosts tr =
     (map_option spec_encode (find (spec_succeeds e user) (map TCP hosts)),
      tr @ map (probe user)
             (filter (\<lambda>c. \<not> spec_skipped e c) (upto_first (spec_succeeds e user) (map TCP hosts))))"
proof (induction hosts arbitrary: tr)
  case Nil
  show ?case by (simp add: upto_first_Nil)
next
  case (Cons h hs)
  show ?case
    by (simp add: testMysqlConnection_eq Cons.IH upto_first_Cons spec_succeeds_def)
qed

lemma socket_loop_eq:
  "socket_loop e user paths tr =
     (map_option spec_encode (find (spec_succeeds e user) (map Socket paths)),
      tr @ map (probe user)
             (filter (\<lambda>c. \<not> spec_skipped e c) (upto_first (spec_succeeds e user) (map Socket paths))))"
proof (induction paths arbitrary: tr)
  case Nil
  show ?case by (simp add: upto_first_Nil)
next
  case (Cons p ps)
  show ?case
    by (simp add: testMysqlConnection_eq Cons.IH upto_first_Cons spec_succeeds_def)
qed

lemma upto_first_none: "\<forall>x\<in>set xs. \<not> P x \<Longrightarrow> upto_first P xs = xs"
  by (induction xs) (auto simp: upto_first_Nil upto_first_Cons)

lemma find_Some_ex: "find P xs = Some y \<Longrightarrow> \<exists>x\<in>set xs. P x"
  by (metis find_None_iff option.distinct(1))

text \<open>
  C1. \<^verbatim>\<open>detectMySQLConnection\<close> does what the trial order says, for every outcome of the
  version check, of the probes and of the existence tests. Once the version check has
  passed, it returns the encoding of the first candidate, in the order \<open>127.0.0.1\<close>,
  \<open>localhost\<close>, then the six socket paths, that is not skipped and whose probe succeeds
  (the bare host for TCP, \<open>localhost:<path>\<close> for a socket), and it throws when there is
  none. The processes it starts are the version check, then the probes of exactly the
  candidates up to and including that first success whose path exists: no process is
  started for a socket path that does not exist, and none after the success.
\<close>

theorem detect_refines_spec:
  "detectMySQLConnection e user tr = spec_detect e user tr"
proof (cases "execa e ''mysql'' [''--version'']")
  case (Inl err)
  then show ?thesis
    by (simp add: detectMySQLConnection_def spec_detect_def run_execa_def)
next
  case v: (Inr out)
  have cands: "spec_candidates = map TCP TCP_OPTIONS @ map Socket COMMON_SOCKET_PATHS"
    by (simp add: spec_candidates_def TCP_OPTIONS_def)
  let ?S = "spec_succeeds e user"
  let ?T = "map TCP TCP_OPTIONS" and ?K = "map Socket COMMON_SOCKET_PATHS"
  show ?thesis
  proof (cases "find ?S ?T")
    case (Some c)
    then have ex: "\<exists>x\<in>set ?T. ?S x" by (rule find_Some_ex)
    show ?thesis
      unfolding detectMySQLConnection_def spec_detect_def spec_probed_def cands
      using Some ex v
      by (simp add: run_execa_def tcp_loop_eq find_append upto_first_append del: set_map)
  next
    case None
    then have nex: "\<forall>x\<in>set ?T. \<not> ?S x" by (simp add: find_None_iff)
    then have up: "upto_first ?S ?T = ?T" by (rule upto_first_none)
    show ?thesis
      unfolding detectMySQLConnection_def spec_detect_def spec_probed_def cands
      using None nex v up
      by (simp add: run_execa_def tcp_loop_eq socket_loop_eq find_append upto_first_append
               del: set_map split: option.splits)
  qed
qed

theorem detect_refines_spec_witness:
  "detectMySQLConnection env_socket ''root'' [] =
     (Inr ''localhost:/tmp/mysql.sock'',
      [(''mysql'', [''--version'']),
       (''mysql'', [''-h127.0.0.1'', ''-uroot'', ''-e'', ''SELECT 1'', ''--silent'']),
       (''mysql'', [''-hlocalhost'', ''-uroot'', ''-e'', ''SELECT 1'', ''--silent'']),
       (''mysql'', [''--socket=/tmp/mysql.sock'', ''-uroot'', ''-e'', ''SELECT 1'', ''--silent''])])"
proof -
  show ?thesis
    unfolding detect_refines_spec [of env_socket "''root''" "[]"]
    by (simp add: spec_detect_def spec_probed_def spec_candidates_def COMMON_SOCKET_PATHS_def
          upto_first_Cons upto_first_Nil spec_succeeds_def env_socket_def env_none_def mysql_args_def)
qed

lemma tcp_loop_all_fail:
  "\<forall>h\<in>set hosts. isl (execa e ''mysql'' (mysql_args None (Some h) user)) \<Longrightarrow>
   fst (tcp_loop e user hosts tr) = None"
  by (induction hosts arbitrary: tr) (simp_all add: testMysqlConnection_eq)

lemma socket_loop_all_fail:
  "\<forall>p\<in>set paths. existsSync e p \<longrightarrow> isl (execa e ''mysql'' (mysql_args (Some p) None user)) \<Longrightarrow>
   fst (socket_loop e user paths tr) = None"
  by (induction paths arbitrary: tr) (simp_all add: testMysqlConnection_eq)

lemma no_connection_message_tcp: "h \<in> set TCP_OPTIONS \<Longrightarrow> str_includes no_connection_message h"
  unfolding no_connection_message_def
  by (intro str_includes_right str_includes_left str_includes_join)

lemma no_connection_message_socket:
  "p \<in> set COMMON_SOCKET_PATHS \<Longrightarrow> str_includes no_connection_message p"
  unfolding no_connection_message_def
  by (intro str_includes_right str_includes_join)

text \<open>
  C3. If \<^verbatim>\<open>mysql --version\<close> fails, \<^verbatim>\<open>detectMySQLConnection\<close> throws the
  client-not-installed error, and the version check is the only process it has started:
  no TCP candidate and no socket candidate is probed.
\<close>

theorem detect_client_missing:
  "execa e ''mysql'' [''--version''] = Inl err \<Longrightarrow>
   detectMySQLConnection e user tr =
     (Inl (Error client_missing_message), tr @ [(''mysql'', [''--version''])])"
  by (simp add: detectMySQLConnection_def run_execa_def)

theorem detect_client_missing_witness:
  "detectMySQLConnection env_none ''root'' [] =
     (Inl (Error client_missing_message), [(''mysql'', [''--version''])])"
  using detect_client_missing [of env_none "Error ''spawn ENOENT''" "''root''" "[]"]
  by (simp add: env_none_def)

text \<open>
  C7. If the client is installed, both TCP hosts fail and every socket path that exists
  fails, \<^verbatim>\<open>detectMySQLConnection\<close> throws an error whose message contains every string
  of \<^verbatim>\<open>TCP_OPTIONS\<close> and every string of \<^verbatim>\<open>COMMON_SOCKET_PATHS\<close>.
\<close>

theorem detect_exhausted_message:
  assumes "execa e ''mysql'' [''--version''] = Inr out"
    and "\<forall>h\<in>set TCP_OPTIONS. isl (execa e ''mysql'' (mysql_args None (Some h) user))"
    and "\<forall>p\<in>set COMMON_SOCKET_PATHS.
           existsSync e p \<longrightarrow> isl (execa e ''mysql'' (mysql_args (Some p) None user))"
  shows "\<exists>msg. fst (detectMySQLConnection e user tr) = Inl (Error msg) \<and>
           (\<forall>h\<in>set TCP_OPTIONS. str_includes msg h) \<and>
           (\<forall>p\<in>set COMMON_SOCKET_PATHS. str_includes msg p)"
proof -
  let ?tr1 = "tr @ [(''mysql'', [''--version''])]"
  obtain r2 tr2 where t: "tcp_loop e user TCP_OPTIONS ?tr1 = (r2, tr2)" by (cases "tcp_loop e user TCP_OPTIONS ?tr1")
  with tcp_loop_all_fail [OF assms(2), of ?tr1] have r2: "r2 = None" by simp
  obtain r3 tr3 where s: "socket_loop e user COMMON_SOCKET_PATHS tr2 = (r3, tr3)"
    by (cases "socket_loop e user COMMON_SOCKET_PATHS tr2")
  with socket_loop_all_fail [OF assms(3), of tr2] have r3: "r3 = None" by simp
  have "fst (detectMySQLConnection e user tr) = Inl (Error no_connection_message)"
    using assms(1) t s r2 r3 by (simp add: detectMySQLConnection_def run_execa_def)
  then show ?thesis
    using no_connection_message_tcp no_connection_message_socket by blast
qed

theorem detect_exhausted_message_witness:
  "\<exists>msg. fst (detectMySQLConnection env_down ''root'' []) = Inl (Error msg) \<and>
     str_includes msg ''127.0.0.1'' \<and> str_includes msg ''localhost'' \<and>
     str_includes msg ''/tmp/mysql_3306.sock'' \<and> str_includes msg ''/tmp/mysql.sock'' \<and>
     str_includes msg ''/var/run/mysqld/mysqld.sock'' \<and>
     str_includes msg ''/Applications/MAMP/tmp/mysql/mysql.sock'' \<and>
     str_includes msg ''/opt/homebrew/var/mysql/mysql.sock'' \<and>
     str_includes msg ''/usr/local/var/mysql/mysql.sock''"
proof -
  have v: "execa env_down ''mysql'' [''--version''] = Inr ''mysql  Ver 8.0.33''"
    by (simp add: env_down_def)
  have t: "\<forall>h\<in>set TCP_OPTIONS. isl (execa env_down ''mysql'' (mysql_args None (Some h) ''root''))"
    by (simp add: env_down_def TCP_OPTIONS_def mysql_args_def)
  have s: "\<forall>p\<in>set COMMON_SOCKET_PATHS.
           existsSync env_down p \<longrightarrow> isl (execa env_down ''mysql'' (mysql_args (Some p) None ''root''))"
    by (simp add: env_down_def COMMON_SOCKET_PATHS_def mysql_args_def)
  from detect_exhausted_message [OF v t s, of "[]"]
  show ?thesis by (auto simp: TCP_OPTIONS_def COMMON_SOCKET_PATHS_def)
qed

section \<open>The connection cache\<close>

lemma tcp_loop_trace:
  "tcp_loop e user hosts tr = (fst (tcp_loop e user hosts []), tr @ snd (tcp_loop e user hosts []))"
proof (induction hosts arbitrary: tr)
  case Nil
  show ?case by simp
next
  case (Cons h hs)
  show ?case
    using Cons.IH [of "tr @ [(''mysql'', mysql_args None (Some h) user)]"]
          Cons.IH [of "[(''mysql'', mysql_args None (Some h) user)]"]
    by (cases "isl (execa e ''mysql'' (mysql_args None (Some h) user))")
       (simp_all add: testMysqlConnection_eq)
qed

lemma socket_loop_trace:
  "socket_loop e user paths tr =
     (fst (socket_loop e user paths []), tr @ snd (socket_loop e user paths []))"
proof (induction paths arbitrary: tr)
  case Nil
  show ?case by simp
next
  case (Cons p ps)
  show ?case
    using Cons.IH [of "tr @ [(''mysql'', mysql_args (Some p) None user)]"]
          Cons.IH [of "[(''mysql'', mysql_args (Some p) None user)]"]
          Cons.IH [of tr]
    by (cases "isl (execa e ''mysql'' (mysql_args (Some p) None user))")
       (simp_all add: testMysqlConnection_eq)
qed

lemma detect_shape:
  "\<exists>r rest. \<forall>tr. detectMySQLConnection e user tr = (r, tr @ (''mysql'', [''--version'']) # rest)"
proof -
  let ?v = "(''mysql'', [''--version''])"
  obtain r2 t2 where t: "tcp_loop e user TCP_OPTIONS [] = (r2, t2)"
    by (cases "tcp_loop e user TCP_OPTIONS []")
  obtain r3 t3 where s: "socket_loop e user COMMON_SOCKET_PATHS [] = (r3, t3)"
    by (cases "socket_loop e user COMMON_SOCKET_PATHS []")
  have t1: "tcp_loop e user TCP_OPTIONS (tr @ [?v]) = (r2, tr @ ?v # t2)" for tr
    using tcp_loop_trace [of e user TCP_OPTIONS "tr @ [?v]"] t by simp
  have s1: "socket_loop e user COMMON_SOCKET_PATHS (tr @ ?v # t2) = (r3, tr @ ?v # t2 @ t3)" for tr
    using socket_loop_trace [of e user COMMON_SOCKET_PATHS "tr @ ?v # t2"] s by simp
  show ?thesis
  proof (cases "execa e ''mysql'' [''--version'']")
    case (Inl err)
    then have "\<forall>tr. detectMySQLConnection e user tr = (Inl (Error client_missing_message), tr @ ?v # [])"
      by (simp add: detectMySQLConnection_def run_execa_def)
    then show ?thesis by blast
  next
    case (Inr out)
    show ?thesis
    proof (cases r2)
      case (Some h)
      with Inr have "\<forall>tr. detectMySQLConnection e user tr = (Inr h, tr @ ?v # t2)"
        by (simp add: detectMySQLConnection_def run_execa_def t1)
      then show ?thesis by blast
    next
      case None
      show ?thesis
      proof (cases r3)
        case (Some conn)
        with Inr None have "\<forall>tr. detectMySQLConnection e user tr = (Inr conn, tr @ ?v # t2 @ t3)"
          by (simp add: detectMySQLConnection_def run_execa_def t1 s1)
        then show ?thesis by blast
      next
        case n: None
        with Inr None have
          "\<forall>tr. detectMySQLConnection e user tr = (Inl (Error no_connection_message), tr @ ?v # t2 @ t3)"
          by (simp add: detectMySQLConnection_def run_execa_def t1 s1)
        then show ?thesis by blast
      qed
    qed
  qed
qed

lemma tcp_loop_result: "fst (tcp_loop e user hosts tr) = Some h \<Longrightarrow> h \<in> set hosts"
  by (induction hosts arbitrary: tr) (auto simp: testMysqlConnection_eq split: bool.splits)

lemma socket_loop_result: "fst (socket_loop e user paths tr) = Some conn \<Longrightarrow> conn \<noteq> []"
  by (induction paths arbitrary: tr) (auto simp: testMysqlConnection_eq split: bool.splits if_splits)

lemma detect_result_nonempty:
  assumes "detectMySQLConnection e user tr = (Inr conn, tr1)"
  shows "conn \<noteq> []"
proof -
  let ?tr0 = "tr @ [(''mysql'', [''--version''])]"
  obtain r2 t2 where t: "tcp_loop e user TCP_OPTIONS ?tr0 = (r2, t2)"
    by (cases "tcp_loop e user TCP_OPTIONS ?tr0")
  obtain r3 t3 where s: "socket_loop e user COMMON_SOCKET_PATHS t2 = (r3, t3)"
    by (cases "socket_loop e user COMMON_SOCKET_PATHS t2")
  show ?thesis
  proof (cases r2)
    case (Some h)
    with t have "h \<in> set TCP_OPTIONS" using tcp_loop_result [of e user TCP_OPTIONS ?tr0 h] by simp
    then have "h \<noteq> []" by (auto simp: TCP_OPTIONS_def)
    with assms t Some show ?thesis
      by (auto simp: detectMySQLConnection_def run_execa_def split: sum.splits)
  next
    case None
    show ?thesis
    proof (cases r3)
      case (Some c)
      with s have "c \<noteq> []" using socket_loop_result [of e user COMMON_SOCKET_PATHS t2 c] by simp
      with assms t s None Some show ?thesis
        by (auto simp: detectMySQLConnection_def run_execa_def split: sum.splits)
    next
      case n: None
      with assms t s None show ?thesis
        by (auto simp: detectMySQLConnection_def run_execa_def split: sum.splits)
    qed
  qed
qed

lemma getMySQLConnection_miss:
  assumes "c user = None" and "user \<notin> set Object_prototype_keys"
    and "detectMySQLConnection e user tr = (Inr conn, tr1)"
  shows "getMySQLConnection e user (c, tr) = (Inr (JSString conn), c(user \<mapsto> conn), tr1)"
proof -
  have "user \<noteq> ''__proto__''"
    using assms(2) by (auto simp: Object_prototype_keys_def)
  then show ?thesis
    using assms by (simp add: getMySQLConnection_def set_prop_def get_prop_def)
qed

lemma getMySQLConnection_hit:
  "truthy (get_prop c user) \<Longrightarrow> getMySQLConnection e user (c, tr) = (Inr (get_prop c user), c, tr)"
  by (simp add: getMySQLConnection_def)

lemma getMySQLConnection_second_call:
  assumes "c user = None" and "user \<notin> set Object_prototype_keys"
    and "detectMySQLConnection e user tr = (Inr conn, tr1)"
    and "getMySQLConnection e user (c, tr) = (r, c1, tr1')"
  shows "getMySQLConnection e user (c1, tr2) = (Inr (JSString conn), c1, tr2)"
proof -
  have c1: "c1 = c(user \<mapsto> conn)" using getMySQLConnection_miss [of c user, OF assms(1,2,3)] assms(4) by simp
  have "conn \<noteq> []" using detect_result_nonempty [OF assms(3)] .
  then have "truthy (get_prop c1 user)" by (simp add: c1 get_prop_def)
  from getMySQLConnection_hit [OF this] show ?thesis by (simp add: c1 get_prop_def)
qed

text \<open>
  C10. When \<^verbatim>\<open>getMySQLConnection\<close> finds no truthy entry for the identity and the
  detection it then runs throws, the exception is propagated and the cache is unchanged;
  the next call with the same identity starts the same processes again and throws again.
  In every call the cache is either unchanged or extended, under the identity of the call,
  by the result of a detection that succeeded.
\<close>

theorem failed_detection_not_cached:
  assumes "\<not> truthy (get_prop c user)"
    and "detectMySQLConnection e user tr = (Inl err, tr1)"
  shows "getMySQLConnection e user (c, tr) = (Inl err, c, tr1) \<and>
         (\<exists>ps. ps \<noteq> [] \<and> tr1 = tr @ ps \<and>
            getMySQLConnection e user (c, tr1) = (Inl err, c, tr1 @ ps)) \<and>
         (\<forall>e' u c0 t0.
            fst (snd (getMySQLConnection e' u (c0, t0))) = c0 \<or>
            (\<exists>conn. fst (detectMySQLConnection e' u t0) = Inr conn \<and>
               fst (snd (getMySQLConnection e' u (c0, t0))) = c0(u \<mapsto> conn)))"
proof (intro conjI)
  show first: "getMySQLConnection e user (c, tr) = (Inl err, c, tr1)"
    using assms by (simp add: getMySQLConnection_def)
  obtain r rest where sh:
    "\<forall>t. detectMySQLConnection e user t = (r, t @ (''mysql'', [''--version'']) # rest)"
    using detect_shape [of e user] by blast
  let ?ps = "(''mysql'', [''--version'']) # rest"
  have r: "r = Inl err" and tr1: "tr1 = tr @ ?ps"
    using sh assms(2) by simp_all
  have "detectMySQLConnection e user tr1 = (Inl err, tr1 @ ?ps)"
    using sh r by simp
  then have "getMySQLConnection e user (c, tr1) = (Inl err, c, tr1 @ ?ps)"
    using assms(1) by (simp add: getMySQLConnection_def)
  with tr1 have "?ps \<noteq> [] \<and> tr1 = tr @ ?ps \<and>
      getMySQLConnection e user (c, tr1) = (Inl err, c, tr1 @ ?ps)" by simp
  then show "\<exists>ps. ps \<noteq> [] \<and> tr1 = tr @ ps \<and>
          getMySQLConnection e user (c, tr1) = (Inl err, c, tr1 @ ps)"
    by blast
  show "\<forall>e' u c0 t0.
          fst (snd (getMySQLConnection e' u (c0, t0))) = c0 \<or>
          (\<exists>conn. fst (detectMySQLConnection e' u t0) = Inr conn \<and>
             fst (snd (getMySQLConnection e' u (c0, t0))) = c0(u \<mapsto> conn))"
    by (auto simp: getMySQLConnection_def set_prop_def Let_def split: prod.splits sum.splits)
qed

theorem failed_detection_not_cached_witness:
  "getMySQLConnection env_down ''root'' (connectionCache, []) =
     (Inl (Error no_connection_message), connectionCache,
      [(''mysql'', [''--version'']),
       (''mysql'', [''-h127.0.0.1'', ''-uroot'', ''-e'', ''SELECT 1'', ''--silent'']),
       (''mysql'', [''-hlocalhost'', ''-uroot'', ''-e'', ''SELECT 1'', ''--silent'']),
       (''mysql'', [''--socket=/tmp/mysql.sock'', ''-uroot'', ''-e'', ''SELECT 1'', ''--silent''])])"
proof -
  have m: "\<not> truthy (get_prop connectionCache ''root'')"
    by (simp add: get_prop_def connectionCache_def Object_prototype_keys_def)
  have d: "detectMySQLConnection env_down ''root'' [] =
     (Inl (Error no_connection_message),
      [(''mysql'', [''--version'']),
       (''mysql'', [''-h127.0.0.1'', ''-uroot'', ''-e'', ''SELECT 1'', ''--silent'']),
       (''mysql'', [''-hlocalhost'', ''-uroot'', ''-e'', ''SELECT 1'', ''--silent'']),
       (''mysql'', [''--socket=/tmp/mysql.sock'', ''-uroot'', ''-e'', ''SELECT 1'', ''--silent''])])"
    by (simp add: detectMySQLConnection_def run_execa_def env_down_def env_none_def
          TCP_OPTIONS_def COMMON_SOCKET_PATHS_def testMysqlConnection_eq mysql_args_def)
  from failed_detection_not_cached [OF m d] show ?thesis by simp
qed

text \<open>
  C4. \<^verbatim>\<open>getMySQLConnection('constructor')\<close> on the empty cache, in an environment where
  a detection for that identity succeeds on \<open>127.0.0.1\<close>: the read of
  \<^verbatim>\<open>connectionCache['constructor']\<close> yields the inherited member of
  \<^verbatim>\<open>Object.prototype\<close>, which is truthy, so no process is started, nothing is stored,
  and the inherited member is returned in place of a connection string.
\<close>

theorem getMySQLConnection_inherited_key:
  "detectMySQLConnection env_tcp ''constructor'' [] =
     (Inr ''127.0.0.1'',
      [(''mysql'', [''--version'']),
       (''mysql'', [''-h127.0.0.1'', ''-uconstructor'', ''-e'', ''SELECT 1'', ''--silent''])]) \<and>
   getMySQLConnection env_tcp ''constructor'' (connectionCache, []) =
     (Inr (JSInherited ''constructor''), connectionCache, [])"
  by (simp add: getMySQLConnection_def get_prop_def connectionCache_def Object_prototype_keys_def
        detectMySQLConnection_def run_execa_def env_tcp_def env_none_def TCP_OPTIONS_def
        testMysqlConnection_eq mysql_args_def)

section \<open>The diagnostics: what each check returns\<close>

text \<open>
  Each check appends a list of issues to the instance and starts a list of processes, and
  these and its result depend on the environment only. Five of the six checks return in
  every environment.
\<close>

lemma checkWpCli_shape:
  "\<exists>r new ps. \<forall>d tr. checkWpCli e (d, tr) = (Inr r, d\<lparr>issues := issues d @ new\<rparr>, tr @ ps)"
proof (cases "existsSync e (WP_CLI_PATH e)")
  case False
  then have "\<forall>d tr. checkWpCli e (d, tr) =
      (Inr ((result False)\<lparr>error := Some ''Not found''\<rparr>),
       d\<lparr>issues := issues d @ [\<lparr>description = ''WP-CLI not found'',
            fix_prop = ''Will be auto-downloaded on first site creation''\<rparr>]\<rparr>, tr @ [])"
    by (simp add: checkWpCli_def checkWpCli_try_def getWpCliCommand_def push_issue_def)
  then show ?thesis by blast
next
  case True
  show ?thesis
  proof (cases "execa e ''php'' [WP_CLI_PATH e, ''--version'']")
    case (Inl err)
    with True have "\<forall>d tr. checkWpCli e (d, tr) =
      (Inr ((result False)\<lparr>error := Some ''Not accessible''\<rparr>),
       d\<lparr>issues := issues d @ [\<lparr>description = ''WP-CLI not accessible'',
            fix_prop = ''Ensure PHP is installed and WP-CLI phar is executable''\<rparr>]\<rparr>,
       tr @ [(''php'', [WP_CLI_PATH e, ''--version''])])"
      by (simp add: checkWpCli_def checkWpCli_try_def getWpCliCommand_def push_issue_def
            run_execa_def)
    then show ?thesis by blast
  next
    case (Inr stdout)
    with True have "\<forall>d tr. checkWpCli e (d, tr) =
      (Inr ((result True)\<lparr>version :=
              Some (case match_version ''WP-CLI '' stdout of Some v \<Rightarrow> v | None \<Rightarrow> ''unknown'')\<rparr>),
       d\<lparr>issues := issues d @ []\<rparr>,
       tr @ [(''php'', [WP_CLI_PATH e, ''--version''])])"
      by (simp add: checkWpCli_def checkWpCli_try_def getWpCliCommand_def run_execa_def)
    then show ?thesis by blast
  qed
qed

lemma checkPhp_version_fails:
  "execa e ''php'' [''--version''] = Inl err \<Longrightarrow>
   checkPhp e (d, tr) =
     (Inr ((result False)\<lparr>error := Some ''Not installed''\<rparr>),
      d\<lparr>issues := issues d @ [php_not_found_issue]\<rparr>,
      tr @ [(''php'', [''--version''])])"
  by (simp add: checkPhp_def checkPhp_try_def run_execa_def push_issue_def php_not_found_issue_def)

lemma checkPhp_unparsable:
  "execa e ''php'' [''--version''] = Inr stdout \<Longrightarrow> match_version ''PHP '' stdout = None \<Longrightarrow>
   checkPhp e (d, tr) =
     (Inr ((result False)\<lparr>error := Some ''Not installed''\<rparr>),
      d\<lparr>issues := issues d @ [php_not_found_issue]\<rparr>,
      tr @ [(''php'', [''--version''])])"
  by (simp add: checkPhp_def checkPhp_try_def run_execa_def push_issue_def php_not_found_issue_def)

lemma checkPhp_listing_fails:
  "execa e ''php'' [''--version''] = Inr stdout \<Longrightarrow> match_version ''PHP '' stdout = Some ver \<Longrightarrow>
   execa e ''php'' [''-m''] = Inl err \<Longrightarrow>
   checkPhp e (d, tr) =
     (Inr ((result False)\<lparr>error := Some ''Not installed''\<rparr>),
      d\<lparr>issues := issues d @ (outdated_issues ver @ [php_not_found_issue])\<rparr>,
      tr @ [(''php'', [''--version'']), (''php'', [''-m''])])"
  by (simp add: checkPhp_def checkPhp_try_def run_execa_def push_issue_def outdated_issues_def
        php_not_found_issue_def)

lemma checkPhp_succeeds:
  "execa e ''php'' [''--version''] = Inr stdout \<Longrightarrow> match_version ''PHP '' stdout = Some ver \<Longrightarrow>
   execa e ''php'' [''-m''] = Inr extensions \<Longrightarrow>
   checkPhp e (d, tr) =
     (Inr ((result True)\<lparr>version := Some ver,
             missingExtensions := Some (missing_extensions e extensions)\<rparr>),
      d\<lparr>issues := issues d @ (outdated_issues ver @ missing_issues e extensions)\<rparr>,
      tr @ [(''php'', [''--version'']), (''php'', [''-m''])])"
  by (simp add: checkPhp_def checkPhp_try_def run_execa_def push_issue_def outdated_issues_def
        missing_issues_def missing_extensions_def Let_def)

lemma checkPhp_shape:
  "\<exists>r new ps. \<forall>d tr. checkPhp e (d, tr) = (Inr r, d\<lparr>issues := issues d @ new\<rparr>, tr @ ps)"
proof (cases "execa e ''php'' [''--version'']")
  case (Inl err)
  from checkPhp_version_fails [OF this] show ?thesis by blast
next
  case v: (Inr stdout)
  show ?thesis
  proof (cases "match_version ''PHP '' stdout")
    case None
    from checkPhp_unparsable [OF v this] show ?thesis by blast
  next
    case (Some ver)
    show ?thesis
    proof (cases "execa e ''php'' [''-m'']")
      case (Inl err)
      from checkPhp_listing_fails [OF v Some this] show ?thesis by blast
    next
      case (Inr extensions)
      from checkPhp_succeeds [OF v Some this] show ?thesis by blast
    qed
  qed
qed


lemma checkMySQL_client_missing:
  "execa e ''mysql'' [''--version''] = Inl err \<Longrightarrow>
   checkMySQL e (d, tr) =
     (Inr ((result False)\<lparr>error := Some ''MySQL client not installed''\<rparr>),
      d\<lparr>issues := issues d @ [\<lparr>description = ''MySQL client not found'',
         fix_prop = ''Install MySQL: brew install mysql (macOS) or install Laravel Herd''\<rparr>]\<rparr>,
      tr @ [(''mysql'', [''--version''])])"
  by (simp add: checkMySQL_def run_execa_def push_issue_def)

lemma checkMySQL_detect_fails:
  "execa e ''mysql'' [''--version''] = Inr out \<Longrightarrow>
   detectMySQLConnection e ''root'' (tr @ [(''mysql'', [''--version''])]) = (Inl err, tr2) \<Longrightarrow>
   checkMySQL e (d, tr) =
     (Inr ((result False)\<lparr>error := Some ''Not accessible''\<rparr>),
      d\<lparr>issues := issues d @ [\<lparr>description = ''MySQL not accessible'',
         fix_prop = ''Start MySQL: brew services start mysql, or install/start Laravel Herd''\<rparr>]\<rparr>,
      tr2)"
  by (simp add: checkMySQL_def run_execa_def push_issue_def)

lemma checkMySQL_detect_succeeds:
  "execa e ''mysql'' [''--version''] = Inr out \<Longrightarrow>
   detectMySQLConnection e ''root'' (tr @ [(''mysql'', [''--version''])]) = (Inr conn, tr2) \<Longrightarrow>
   checkMySQL e (d, tr) = (Inr ((result True)\<lparr>connection := Some conn\<rparr>), d, tr2)"
  by (simp add: checkMySQL_def run_execa_def)

lemma checkMySQL_shape:
  "\<exists>r new ps. \<forall>d tr. checkMySQL e (d, tr) = (Inr r, d\<lparr>issues := issues d @ new\<rparr>, tr @ ps)"
proof (cases "execa e ''mysql'' [''--version'']")
  case (Inl err)
  from checkMySQL_client_missing [OF this] show ?thesis by blast
next
  case v: (Inr out)
  let ?v = "(''mysql'', [''--version''])"
  obtain r rest where sh:
    "\<forall>t. detectMySQLConnection e ''root'' t = (r, t @ ?v # rest)"
    using detect_shape [of e "''root''"] by blast
  show ?thesis
  proof (cases r)
    case (Inl err)
    have "\<forall>d tr. checkMySQL e (d, tr) =
      (Inr ((result False)\<lparr>error := Some ''Not accessible''\<rparr>),
       d\<lparr>issues := issues d @ [\<lparr>description = ''MySQL not accessible'',
         fix_prop = ''Start MySQL: brew services start mysql, or install/start Laravel Herd''\<rparr>]\<rparr>,
       tr @ (?v # ?v # rest))"
      using checkMySQL_detect_fails [OF v, of _ err] sh Inl by simp
    then show ?thesis by blast
  next
    case (Inr conn)
    have "\<forall>d tr. checkMySQL e (d, tr) =
      (Inr ((result True)\<lparr>connection := Some conn\<rparr>), d\<lparr>issues := issues d @ []\<rparr>,
       tr @ (?v # ?v # rest))"
      using checkMySQL_detect_succeeds [OF v, of _ conn] sh Inr by simp
    then show ?thesis by blast
  qed
qed

lemma checkHerd_shape:
  "\<exists>r new ps. \<forall>d tr. checkHerd e (d, tr) = (Inr r, d\<lparr>issues := issues d @ new\<rparr>, tr @ ps)"
proof (cases "execa e ''herd'' [''--version'']")
  case (Inl err)
  then have "\<forall>d tr. checkHerd e (d, tr) =
      (Inr ((result True)\<lparr>installed := Some False\<rparr>), d\<lparr>issues := issues d @ []\<rparr>,
       tr @ [(''herd'', [''--version''])])"
    by (simp add: checkHerd_def checkHerd_try_def isHerdInstalled_def run_execa_def)
  then show ?thesis by blast
next
  case (Inr stdout)
  then have "\<forall>d tr. checkHerd e (d, tr) =
      (Inr ((result True)\<lparr>installed := Some True, version := Some (trim e stdout)\<rparr>),
       d\<lparr>issues := issues d @ []\<rparr>,
       tr @ [(''herd'', [''--version'']), (''herd'', [''--version''])])"
    by (simp add: checkHerd_def checkHerd_try_def isHerdInstalled_def run_execa_def)
  then show ?thesis by blast
qed

lemma permission_loop_shape:
  "\<exists>f new. \<forall>failed d.
     permission_loop e dirs (failed, d) = (failed @ f, d\<lparr>issues := issues d @ new\<rparr>)"
proof (induction dirs)
  case Nil
  have "\<forall>failed d. permission_loop e [] (failed, d) = (failed @ [], d\<lparr>issues := issues d @ []\<rparr>)"
    by simp
  then show ?case by blast
next
  case (Cons dir dirs)
  then obtain f new where ih: "\<forall>failed d.
     permission_loop e dirs (failed, d) = (failed @ f, d\<lparr>issues := issues d @ new\<rparr>)"
    by blast
  let ?t = "path_join e [dir, ''.wpmax-test'']"
  show ?case
  proof (cases "case writeFileSync e ?t ''test'' of Some err \<Rightarrow> Some err | None \<Rightarrow> unlinkSync e ?t")
    case None
    then have "\<forall>failed d. permission_loop e (dir # dirs) (failed, d) =
        (failed @ f, d\<lparr>issues := issues d @ new\<rparr>)"
      using ih by simp
    then show ?thesis by blast
  next
    case (Some err)
    then have "\<forall>failed d. permission_loop e (dir # dirs) (failed, d) =
        (failed @ (dir # f),
         d\<lparr>issues := issues d @ (\<lparr>description = ''No write permission: '' @ dir,
              fix_prop = ''chmod 755 '' @ dir\<rparr> # new)\<rparr>)"
      using ih by (simp add: push_issue_def)
    then show ?thesis by blast
  qed
qed

lemma checkPermissions_cwd_throws:
  "process_cwd e = Inl err \<Longrightarrow> checkPermissions e (d, tr) = (Inl err, d, tr)"
  by (simp add: checkPermissions_def)

lemma checkPermissions_homedir_throws:
  "process_cwd e = Inr cwd \<Longrightarrow> os_homedir e = Inl err \<Longrightarrow>
   checkPermissions e (d, tr) = (Inl err, d, tr)"
  by (simp add: checkPermissions_def)

lemma checkPermissions_returns:
  assumes "process_cwd e = Inr cwd" and "os_homedir e = Inr home"
  shows "\<exists>r new. \<forall>d tr.
     checkPermissions e (d, tr) = (Inr r, d\<lparr>issues := issues d @ new\<rparr>, tr @ [])"
proof -
  let ?dirs = "[cwd] @
     (if existsSync e (path_join e [home, ''Sites''])
      then [path_join e [home, ''Sites'']] else [])"
  obtain f new where sh: "\<forall>failed d.
     permission_loop e ?dirs (failed, d) = (failed @ f, d\<lparr>issues := issues d @ new\<rparr>)"
    using permission_loop_shape [of e ?dirs] by blast
  have "\<forall>d tr. checkPermissions e (d, tr) =
      (Inr (if length f > 0 then (result False)\<lparr>failedDirs := Some f\<rparr> else result True),
       d\<lparr>issues := issues d @ new\<rparr>, tr @ [])"
    using sh assms by (simp add: checkPermissions_def Let_def)
  then show ?thesis by blast
qed

lemma checkConfig_shape:
  "\<exists>r new ps. \<forall>d tr. checkConfig e (d, tr) = (Inr r, d\<lparr>issues := issues d @ new\<rparr>, tr @ ps)"
proof -
  let ?i = "\<lparr>description = ''Config file error'',
            fix_prop = ''Run any wpmax command to regenerate config''\<rparr>"
  show ?thesis
  proof (cases "os_homedir e")
    case (Inl err)
    then have "\<forall>d tr. checkConfig e (d, tr) =
        (Inr ((result False)\<lparr>error := Some (message err)\<rparr>),
         d\<lparr>issues := issues d @ [?i]\<rparr>, tr @ [])"
      by (simp add: checkConfig_def checkConfig_try_def push_issue_def Let_def)
    then show ?thesis by blast
  next
    case h: (Inr home)
    show ?thesis
    proof (cases "Object_keys_length (getConfig e)")
      case (Inl err)
      with h have "\<forall>d tr. checkConfig e (d, tr) =
          (Inr ((result False)\<lparr>error := Some (message err)\<rparr>),
           d\<lparr>issues := issues d @ [?i]\<rparr>, tr @ [])"
        by (simp add: checkConfig_def checkConfig_try_def push_issue_def Let_def)
      then show ?thesis by blast
    next
      case (Inr n)
      with h have "\<forall>d tr. checkConfig e (d, tr) =
          (Inr ((result True)\<lparr>
              exists_prop := Some (existsSync e (path_join e [home, ''.config'', ''wpmax'', ''config.json''])),
              path_prop := Some (path_join e [home, ''.config'', ''wpmax'', ''config.json'']),
              hasSettings := Some (n > 0)\<rparr>),
           d\<lparr>issues := issues d @ []\<rparr>, tr @ [])"
        by (simp add: checkConfig_def checkConfig_try_def Let_def)
      then show ?thesis by blast
    qed
  qed
qed

lemma guarded_checks_return:
  "\<not> isl (fst (checkWpCli e st))" "\<not> isl (fst (checkPhp e st))" "\<not> isl (fst (checkMySQL e st))"
  "\<not> isl (fst (checkHerd e st))" "\<not> isl (fst (checkConfig e st))"
proof -
  obtain d tr where st: "st = (d, tr)" by (cases st)
  show "\<not> isl (fst (checkWpCli e st))" using checkWpCli_shape [of e] by (auto simp: st)
  show "\<not> isl (fst (checkPhp e st))" using checkPhp_shape [of e] by (auto simp: st)
  show "\<not> isl (fst (checkMySQL e st))" using checkMySQL_shape [of e] by (auto simp: st)
  show "\<not> isl (fst (checkHerd e st))" using checkHerd_shape [of e] by (auto simp: st)
  show "\<not> isl (fst (checkConfig e st))" using checkConfig_shape [of e] by (auto simp: st)
qed

lemma pushed_eq:
  "\<forall>d tr. check (d, tr) = (r, d\<lparr>issues := issues d @ n\<rparr>, tr @ p) \<Longrightarrow> pushed check = n"
  by (simp add: pushed_def DoctorCheck_new_def)

lemma runAllChecks_compose_returns:
  assumes c1: "\<forall>d tr. checkWpCli e (d, tr) = (Inr r1, d\<lparr>issues := issues d @ n1\<rparr>, tr @ p1)"
    and c2: "\<forall>d tr. checkPhp e (d, tr) = (Inr r2, d\<lparr>issues := issues d @ n2\<rparr>, tr @ p2)"
    and c3: "\<forall>d tr. checkMySQL e (d, tr) = (Inr r3, d\<lparr>issues := issues d @ n3\<rparr>, tr @ p3)"
    and c4: "\<forall>d tr. checkHerd e (d, tr) = (Inr r4, d\<lparr>issues := issues d @ n4\<rparr>, tr @ p4)"
    and c5: "\<forall>d tr. checkPermissions e (d, tr) = (Inr r5, d\<lparr>issues := issues d @ n5\<rparr>, tr @ p5)"
    and c6: "\<forall>d tr. checkConfig e (d, tr) = (Inr r6, d\<lparr>issues := issues d @ n6\<rparr>, tr @ p6)"
    and info: "getEnvironmentInfo e = Inr info"
  shows "runAllChecks e (d, tr) =
    (Inr \<lparr>wpCli = r1, php = r2, mysql = r3, herd = r4, permissions = r5, config = r6,
          environment = info,
          report_issues = issues d @ (n1 @ n2 @ n3 @ n4 @ n5 @ n6)\<rparr>,
     d\<lparr>issues := issues d @ (n1 @ n2 @ n3 @ n4 @ n5 @ n6)\<rparr>,
     tr @ (p1 @ p2 @ p3 @ p4 @ p5 @ p6))"
  by (simp add: runAllChecks_def c1 c2 c3 c4 c5 c6 info)

lemma runAllChecks_compose_throws:
  assumes c1: "\<forall>d tr. checkWpCli e (d, tr) = (Inr r1, d\<lparr>issues := issues d @ n1\<rparr>, tr @ p1)"
    and c2: "\<forall>d tr. checkPhp e (d, tr) = (Inr r2, d\<lparr>issues := issues d @ n2\<rparr>, tr @ p2)"
    and c3: "\<forall>d tr. checkMySQL e (d, tr) = (Inr r3, d\<lparr>issues := issues d @ n3\<rparr>, tr @ p3)"
    and c4: "\<forall>d tr. checkHerd e (d, tr) = (Inr r4, d\<lparr>issues := issues d @ n4\<rparr>, tr @ p4)"
    and c5: "\<forall>d tr. checkPermissions e (d, tr) = (Inl err, d, tr)"
  shows "runAllChecks e (d, tr) =
    (Inl err, d\<lparr>issues := issues d @ (n1 @ n2 @ n3 @ n4)\<rparr>, tr @ (p1 @ p2 @ p3 @ p4))"
  by (simp add: runAllChecks_def c1 c2 c3 c4 c5)

text \<open>
  \<^verbatim>\<open>runAllChecks\<close> rejects exactly when \<^verbatim>\<open>process.cwd()\<close> or \<^verbatim>\<open>os.homedir()\<close> throws,
  with the error of \<^verbatim>\<open>checkPermissions\<close>. Otherwise it returns a report whose six
  results are those of the checks and whose issue list is the list of the instance
  followed by what the six checks append, in the order of the checks.
\<close>

lemma runAllChecks_throws:
  assumes "fst (checkPermissions e (DoctorCheck_new, [])) = Inl err"
  shows "\<exists>new ps. \<forall>d tr.
     runAllChecks e (d, tr) = (Inl err, d\<lparr>issues := issues d @ new\<rparr>, tr @ ps)"
proof -
  obtain r1 n1 p1 where c1:
    "\<forall>d tr. checkWpCli e (d, tr) = (Inr r1, d\<lparr>issues := issues d @ n1\<rparr>, tr @ p1)"
    using checkWpCli_shape [of e] by blast
  obtain r2 n2 p2 where c2:
    "\<forall>d tr. checkPhp e (d, tr) = (Inr r2, d\<lparr>issues := issues d @ n2\<rparr>, tr @ p2)"
    using checkPhp_shape [of e] by blast
  obtain r3 n3 p3 where c3:
    "\<forall>d tr. checkMySQL e (d, tr) = (Inr r3, d\<lparr>issues := issues d @ n3\<rparr>, tr @ p3)"
    using checkMySQL_shape [of e] by blast
  obtain r4 n4 p4 where c4:
    "\<forall>d tr. checkHerd e (d, tr) = (Inr r4, d\<lparr>issues := issues d @ n4\<rparr>, tr @ p4)"
    using checkHerd_shape [of e] by blast
  have c5: "\<forall>d tr. checkPermissions e (d, tr) = (Inl err, d, tr)"
    using assms by (auto simp: checkPermissions_def Let_def split: sum.splits prod.splits if_splits)
  from runAllChecks_compose_throws [OF c1 c2 c3 c4 c5] show ?thesis by blast
qed

lemma runAllChecks_returns:
  assumes cwd: "process_cwd e = Inr cwd" and home: "os_homedir e = Inr home"
  shows "\<exists>rep ps. \<forall>d tr.
     runAllChecks e (d, tr) =
       (Inr (rep\<lparr>report_issues := issues d @
               (pushed (checkWpCli e) @ pushed (checkPhp e) @ pushed (checkMySQL e) @
                pushed (checkHerd e) @ pushed (checkPermissions e) @ pushed (checkConfig e))\<rparr>),
        d\<lparr>issues := issues d @
               (pushed (checkWpCli e) @ pushed (checkPhp e) @ pushed (checkMySQL e) @
                pushed (checkHerd e) @ pushed (checkPermissions e) @ pushed (checkConfig e))\<rparr>,
        tr @ ps) \<and>
     fst (checkWpCli e (d, tr)) = Inr (wpCli rep) \<and> fst (checkPhp e (d, tr)) = Inr (php rep) \<and>
     fst (checkMySQL e (d, tr)) = Inr (mysql rep) \<and> fst (checkHerd e (d, tr)) = Inr (herd rep) \<and>
     fst (checkPermissions e (d, tr)) = Inr (permissions rep) \<and>
     fst (checkConfig e (d, tr)) = Inr (config rep) \<and>
     getEnvironmentInfo e = Inr (environment rep)"
proof -
  obtain r1 n1 p1 where c1:
    "\<forall>d tr. checkWpCli e (d, tr) = (Inr r1, d\<lparr>issues := issues d @ n1\<rparr>, tr @ p1)"
    using checkWpCli_shape [of e] by blast
  obtain r2 n2 p2 where c2:
    "\<forall>d tr. checkPhp e (d, tr) = (Inr r2, d\<lparr>issues := issues d @ n2\<rparr>, tr @ p2)"
    using checkPhp_shape [of e] by blast
  obtain r3 n3 p3 where c3:
    "\<forall>d tr. checkMySQL e (d, tr) = (Inr r3, d\<lparr>issues := issues d @ n3\<rparr>, tr @ p3)"
    using checkMySQL_shape [of e] by blast
  obtain r4 n4 p4 where c4:
    "\<forall>d tr. checkHerd e (d, tr) = (Inr r4, d\<lparr>issues := issues d @ n4\<rparr>, tr @ p4)"
    using checkHerd_shape [of e] by blast
  obtain r5 n5 where c5:
    "\<forall>d tr. checkPermissions e (d, tr) = (Inr r5, d\<lparr>issues := issues d @ n5\<rparr>, tr @ [])"
    using checkPermissions_returns [OF cwd home] by blast
  obtain r6 n6 p6 where c6:
    "\<forall>d tr. checkConfig e (d, tr) = (Inr r6, d\<lparr>issues := issues d @ n6\<rparr>, tr @ p6)"
    using checkConfig_shape [of e] by blast
  obtain info where info: "getEnvironmentInfo e = Inr info"
    using home by (simp add: getEnvironmentInfo_def)
  note n = pushed_eq [OF c1] pushed_eq [OF c2] pushed_eq [OF c3] pushed_eq [OF c4]
    pushed_eq [OF c5] pushed_eq [OF c6]
  let ?rep = "\<lparr>wpCli = r1, php = r2, mysql = r3, herd = r4, permissions = r5, config = r6,
          environment = info, report_issues = []\<rparr>"
  have "\<forall>d tr.
     runAllChecks e (d, tr) =
       (Inr (?rep\<lparr>report_issues := issues d @
               (pushed (checkWpCli e) @ pushed (checkPhp e) @ pushed (checkMySQL e) @
                pushed (checkHerd e) @ pushed (checkPermissions e) @ pushed (checkConfig e))\<rparr>),
        d\<lparr>issues := issues d @
               (pushed (checkWpCli e) @ pushed (checkPhp e) @ pushed (checkMySQL e) @
                pushed (checkHerd e) @ pushed (checkPermissions e) @ pushed (checkConfig e))\<rparr>,
        tr @ (p1 @ p2 @ p3 @ p4 @ [] @ p6)) \<and>
     fst (checkWpCli e (d, tr)) = Inr (wpCli ?rep) \<and> fst (checkPhp e (d, tr)) = Inr (php ?rep) \<and>
     fst (checkMySQL e (d, tr)) = Inr (mysql ?rep) \<and> fst (checkHerd e (d, tr)) = Inr (herd ?rep) \<and>
     fst (checkPermissions e (d, tr)) = Inr (permissions ?rep) \<and>
     fst (checkConfig e (d, tr)) = Inr (config ?rep) \<and>
     getEnvironmentInfo e = Inr (environment ?rep)"
    using runAllChecks_compose_returns [OF c1 c2 c3 c4 c5 c6 info]
    by (simp add: n c1 c2 c3 c4 c5 c6 info)
  then show ?thesis by blast
qed

lemma env_none_fields:
  "execa env_none cmd args = Inl (Error ''spawn ENOENT'')"
  "existsSync env_none p = False"
  "writeFileSync env_none p content = Some (Error ''EACCES: permission denied'')"
  "path_join env_none = js_join ''/''"
  "WP_CLI_PATH env_none = ''/opt/wpmax/bin/wp-cli.phar''"
  "CONFIG_DIR env_none = ''/home/dev/.config/wpmax''"
  "process_cwd env_none = Inr ''/home/dev/project''"
  "os_homedir env_none = Inr ''/home/dev''"
  by (simp_all add: env_none_def)

lemma env_cwd_gone_fields:
  "execa env_cwd_gone cmd args = Inl (Error ''spawn ENOENT'')"
  "existsSync env_cwd_gone p = False"
  "WP_CLI_PATH env_cwd_gone = ''/opt/wpmax/bin/wp-cli.phar''"
  "process_cwd env_cwd_gone = Inl (Error ''ENOENT: no such file or directory, uv_cwd'')"
  by (simp_all add: env_cwd_gone_def env_none_def)

lemma match_version_php73: "match_version ''PHP '' ''PHP 7.3.0 (cli)'' = Some ''7.3.0''"
  by (simp add: match_triple_def is_digit_def)

text \<open>
  C2. \<^verbatim>\<open>runAllChecks()\<close> in a process whose working directory has been removed, with
  every external command failing: \<^verbatim>\<open>process.cwd()\<close> throws in \<^verbatim>\<open>checkPermissions\<close>,
  outside its \<^verbatim>\<open>try\<close>, so the check throws and \<^verbatim>\<open>runAllChecks\<close> rejects with that
  error after three issues have been recorded, and no report is returned.
\<close>

theorem runAllChecks_rejects_when_cwd_gone:
  "checkPermissions env_cwd_gone (DoctorCheck_new, []) =
     (Inl (Error ''ENOENT: no such file or directory, uv_cwd''), DoctorCheck_new, []) \<and>
   runAllChecks env_cwd_gone (DoctorCheck_new, []) =
     (Inl (Error ''ENOENT: no such file or directory, uv_cwd''),
      \<lparr>checks = [],
       issues =
         [\<lparr>description = ''WP-CLI not found'',
           fix_prop = ''Will be auto-downloaded on first site creation''\<rparr>,
          php_not_found_issue,
          \<lparr>description = ''MySQL client not found'',
           fix_prop = ''Install MySQL: brew install mysql (macOS) or install Laravel Herd''\<rparr>]\<rparr>,
      [(''php'', [''--version'']), (''mysql'', [''--version'']), (''herd'', [''--version''])])"
proof -
  have v: "execa env_cwd_gone ''php'' [''--version''] = Inl (Error ''spawn ENOENT'')"
    "execa env_cwd_gone ''mysql'' [''--version''] = Inl (Error ''spawn ENOENT'')"
    by (simp_all add: env_cwd_gone_fields)
  show ?thesis
    by (simp add: runAllChecks_def checkPhp_version_fails [OF v(1)]
          checkMySQL_client_missing [OF v(2)] checkWpCli_def checkWpCli_try_def
          getWpCliCommand_def checkHerd_def checkHerd_try_def isHerdInstalled_def run_execa_def
          checkPermissions_def push_issue_def DoctorCheck_new_def env_cwd_gone_fields)
qed

text \<open>
  C5. An instance starts with an empty issue list, and two runs of the battery in the same
  environment, each on a fresh instance and the second after the first, have the same
  outcome. Both reject when \<^verbatim>\<open>process.cwd()\<close> or \<^verbatim>\<open>os.homedir()\<close> throws, and only
  then. Otherwise both return a report, and the two issue lists are equal: each is what
  the six checks append, in the order of the checks.
\<close>

theorem runAllChecks_fresh_runs_agree:
  assumes "runAllChecks e (DoctorCheck_new, tr) = (res1, d1, tr1)"
    and "runAllChecks e (DoctorCheck_new, tr1) = (res2, d2, tr2)"
  shows "issues DoctorCheck_new = [] \<and> res2 = res1 \<and>
         (isl res1 \<longleftrightarrow> isl (process_cwd e) \<or> isl (os_homedir e)) \<and>
         (\<forall>rep1. res1 = Inr rep1 \<longrightarrow>
            (\<exists>rep2. res2 = Inr rep2 \<and> report_issues rep2 = report_issues rep1) \<and>
            report_issues rep1 =
              pushed (checkWpCli e) @ pushed (checkPhp e) @ pushed (checkMySQL e) @
              pushed (checkHerd e) @ pushed (checkPermissions e) @ pushed (checkConfig e))"
proof -
  have fresh: "issues DoctorCheck_new = []" by (simp add: DoctorCheck_new_def)
  show ?thesis
  proof (cases "isl (process_cwd e) \<or> isl (os_homedir e)")
    case True
    have "\<exists>err. fst (checkPermissions e (DoctorCheck_new, [])) = Inl err"
    proof (cases "process_cwd e")
      case (Inl err)
      from checkPermissions_cwd_throws [OF this] show ?thesis by simp
    next
      case (Inr cwd)
      with True obtain err where "os_homedir e = Inl err" by (auto simp: isl_def)
      from checkPermissions_homedir_throws [OF Inr this] show ?thesis by simp
    qed
    then obtain err where "fst (checkPermissions e (DoctorCheck_new, [])) = Inl err" by blast
    from runAllChecks_throws [OF this] obtain new ps where
      "\<forall>d tr. runAllChecks e (d, tr) = (Inl err, d\<lparr>issues := issues d @ new\<rparr>, tr @ ps)"
      by blast
    with assms have "res1 = Inl err" "res2 = Inl err" by simp_all
    with True fresh show ?thesis by simp
  next
    case False
    then obtain cwd home where "process_cwd e = Inr cwd" "os_homedir e = Inr home"
      by (cases "process_cwd e"; cases "os_homedir e") auto
    from runAllChecks_returns [OF this] obtain rep ps where sh: "\<forall>d tr.
       runAllChecks e (d, tr) =
         (Inr (rep\<lparr>report_issues := issues d @
                 (pushed (checkWpCli e) @ pushed (checkPhp e) @ pushed (checkMySQL e) @
                  pushed (checkHerd e) @ pushed (checkPermissions e) @ pushed (checkConfig e))\<rparr>),
          d\<lparr>issues := issues d @
                 (pushed (checkWpCli e) @ pushed (checkPhp e) @ pushed (checkMySQL e) @
                  pushed (checkHerd e) @ pushed (checkPermissions e) @ pushed (checkConfig e))\<rparr>,
          tr @ ps)"
      by blast
    let ?new = "pushed (checkWpCli e) @ pushed (checkPhp e) @ pushed (checkMySQL e) @
                  pushed (checkHerd e) @ pushed (checkPermissions e) @ pushed (checkConfig e)"
    from sh assms have "res1 = Inr (rep\<lparr>report_issues := ?new\<rparr>)"
      "res2 = Inr (rep\<lparr>report_issues := ?new\<rparr>)"
      by (simp_all add: DoctorCheck_new_def)
    with False fresh show ?thesis by auto
  qed
qed

theorem runAllChecks_fresh_runs_agree_witness:
  "map description (report_issues (projr (fst (runAllChecks env_none (DoctorCheck_new, []))))) =
     [''WP-CLI not found'', ''PHP not found'', ''MySQL client not found'',
      ''No write permission: /home/dev/project''] \<and>
   fst (runAllChecks env_none
      (DoctorCheck_new, snd (snd (runAllChecks env_none (DoctorCheck_new, []))))) =
   fst (runAllChecks env_none (DoctorCheck_new, []))"
proof -
  obtain res1 d1 tr1 where 1: "runAllChecks env_none (DoctorCheck_new, []) = (res1, d1, tr1)"
    by (cases "runAllChecks env_none (DoctorCheck_new, [])") auto
  obtain res2 d2 tr2 where 2: "runAllChecks env_none (DoctorCheck_new, tr1) = (res2, d2, tr2)"
    by (cases "runAllChecks env_none (DoctorCheck_new, tr1)") auto
  have v: "execa env_none ''php'' [''--version''] = Inl (Error ''spawn ENOENT'')"
    "execa env_none ''mysql'' [''--version''] = Inl (Error ''spawn ENOENT'')"
    by (simp_all add: env_none_fields)
  have "map description (report_issues (projr (fst (runAllChecks env_none (DoctorCheck_new, []))))) =
     [''WP-CLI not found'', ''PHP not found'', ''MySQL client not found'',
      ''No write permission: /home/dev/project'']"
    by (simp add: runAllChecks_def checkPhp_version_fails [OF v(1)]
          checkMySQL_client_missing [OF v(2)] checkWpCli_def checkWpCli_try_def
          getWpCliCommand_def checkHerd_def checkHerd_try_def isHerdInstalled_def run_execa_def
          checkPermissions_def checkConfig_def checkConfig_try_def getConfig_def CONFIG_FILE_def
          getEnvironmentInfo_def push_issue_def php_not_found_issue_def DoctorCheck_new_def
          Let_def env_none_fields)
  with runAllChecks_fresh_runs_agree [OF 1 2] 1 2 show ?thesis by auto
qed

text \<open>
  C8. \<^verbatim>\<open>checkWpCli\<close> returns the error \<open>Not found\<close> when the WP-CLI file does not exist
  and \<open>Not accessible\<close> when the file exists and invoking it fails; \<^verbatim>\<open>checkMySQL\<close>
  returns \<open>MySQL client not installed\<close> when \<^verbatim>\<open>mysql --version\<close> fails and
  \<open>Not accessible\<close> when the client runs and every candidate transport fails. The two
  results of each check are different.
\<close>

theorem distinguishable_errors:
  "(\<not> existsSync e (WP_CLI_PATH e) \<longrightarrow>
      fst (checkWpCli e st) = Inr ((result False)\<lparr>error := Some ''Not found''\<rparr>)) \<and>
   (existsSync e (WP_CLI_PATH e) \<and> isl (execa e ''php'' [WP_CLI_PATH e, ''--version'']) \<longrightarrow>
      fst (checkWpCli e st) = Inr ((result False)\<lparr>error := Some ''Not accessible''\<rparr>)) \<and>
   (isl (execa e ''mysql'' [''--version'']) \<longrightarrow>
      fst (checkMySQL e st) = Inr ((result False)\<lparr>error := Some ''MySQL client not installed''\<rparr>)) \<and>
   (\<not> isl (execa e ''mysql'' [''--version'']) \<and>
    (\<forall>h\<in>set TCP_OPTIONS. isl (execa e ''mysql'' (mysql_args None (Some h) ''root''))) \<and>
    (\<forall>p\<in>set COMMON_SOCKET_PATHS.
        existsSync e p \<longrightarrow> isl (execa e ''mysql'' (mysql_args (Some p) None ''root''))) \<longrightarrow>
      fst (checkMySQL e st) = Inr ((result False)\<lparr>error := Some ''Not accessible''\<rparr>)) \<and>
   (result False)\<lparr>error := Some ''Not found''\<rparr> \<noteq> (result False)\<lparr>error := Some ''Not accessible''\<rparr> \<and>
   (result False)\<lparr>error := Some ''MySQL client not installed''\<rparr> \<noteq>
     (result False)\<lparr>error := Some ''Not accessible''\<rparr>"
proof -
  obtain d tr where st: "st = (d, tr)" by (cases st)
  have a: "fst (checkWpCli e st) = Inr ((result False)\<lparr>error := Some ''Not found''\<rparr>)"
    if "\<not> existsSync e (WP_CLI_PATH e)"
    using that by (simp add: st checkWpCli_def checkWpCli_try_def getWpCliCommand_def)
  have b: "fst (checkWpCli e st) = Inr ((result False)\<lparr>error := Some ''Not accessible''\<rparr>)"
    if "existsSync e (WP_CLI_PATH e)" "isl (execa e ''php'' [WP_CLI_PATH e, ''--version''])"
  proof -
    from that(2) obtain err where "execa e ''php'' [WP_CLI_PATH e, ''--version''] = Inl err"
      by (auto simp: isl_def)
    with that(1) show ?thesis
      by (simp add: st checkWpCli_def checkWpCli_try_def getWpCliCommand_def run_execa_def)
  qed
  have c: "fst (checkMySQL e st) = Inr ((result False)\<lparr>error := Some ''MySQL client not installed''\<rparr>)"
    if "isl (execa e ''mysql'' [''--version''])"
  proof -
    from that obtain err where "execa e ''mysql'' [''--version''] = Inl err"
      by (auto simp: isl_def)
    from checkMySQL_client_missing [OF this] show ?thesis by (simp add: st)
  qed
  have d: "fst (checkMySQL e st) = Inr ((result False)\<lparr>error := Some ''Not accessible''\<rparr>)"
    if v: "\<not> isl (execa e ''mysql'' [''--version''])"
      and t: "\<forall>h\<in>set TCP_OPTIONS. isl (execa e ''mysql'' (mysql_args None (Some h) ''root''))"
      and s: "\<forall>p\<in>set COMMON_SOCKET_PATHS.
        existsSync e p \<longrightarrow> isl (execa e ''mysql'' (mysql_args (Some p) None ''root''))"
  proof -
    from v obtain out where out: "execa e ''mysql'' [''--version''] = Inr out"
      by (cases "execa e ''mysql'' [''--version'']") auto
    let ?tr1 = "tr @ [(''mysql'', [''--version''])]"
    let ?tr2 = "?tr1 @ [(''mysql'', [''--version''])]"
    obtain r2 t2 where tl: "tcp_loop e ''root'' TCP_OPTIONS ?tr2 = (r2, t2)"
      by (cases "tcp_loop e ''root'' TCP_OPTIONS ?tr2")
    with tcp_loop_all_fail [OF t, of ?tr2] have r2: "r2 = None" by simp
    obtain r3 t3 where sl: "socket_loop e ''root'' COMMON_SOCKET_PATHS t2 = (r3, t3)"
      by (cases "socket_loop e ''root'' COMMON_SOCKET_PATHS t2")
    with socket_loop_all_fail [OF s, of t2] have r3: "r3 = None" by simp
    have "detectMySQLConnection e ''root'' ?tr1 = (Inl (Error no_connection_message), t3)"
      using out tl sl r2 r3 by (simp add: detectMySQLConnection_def run_execa_def)
    from checkMySQL_detect_fails [OF out this] show ?thesis by (simp add: st)
  qed
  have e: "(result False)\<lparr>error := Some ''Not found''\<rparr> \<noteq> (result False)\<lparr>error := Some ''Not accessible''\<rparr>"
    "(result False)\<lparr>error := Some ''MySQL client not installed''\<rparr> \<noteq>
     (result False)\<lparr>error := Some ''Not accessible''\<rparr>"
    by (simp_all add: result_def)
  from a b c d e show ?thesis by blast
qed

theorem distinguishable_errors_witness:
  "fst (checkWpCli env_none (DoctorCheck_new, [])) = Inr ((result False)\<lparr>error := Some ''Not found''\<rparr>) \<and>
   fst (checkWpCli env_phar (DoctorCheck_new, [])) =
     Inr ((result False)\<lparr>error := Some ''Not accessible''\<rparr>) \<and>
   fst (checkMySQL env_none (DoctorCheck_new, [])) =
     Inr ((result False)\<lparr>error := Some ''MySQL client not installed''\<rparr>) \<and>
   fst (checkMySQL env_down (DoctorCheck_new, [])) =
     Inr ((result False)\<lparr>error := Some ''Not accessible''\<rparr>)"
proof -
  have 1: "\<not> existsSync env_none (WP_CLI_PATH env_none)"
    and 3: "isl (execa env_none ''mysql'' [''--version''])"
    by (simp_all add: env_none_def)
  have 2: "existsSync env_phar (WP_CLI_PATH env_phar) \<and>
           isl (execa env_phar ''php'' [WP_CLI_PATH env_phar, ''--version''])"
    by (simp add: env_phar_def env_none_def)
  have 4: "\<not> isl (execa env_down ''mysql'' [''--version'']) \<and>
    (\<forall>h\<in>set TCP_OPTIONS. isl (execa env_down ''mysql'' (mysql_args None (Some h) ''root''))) \<and>
    (\<forall>p\<in>set COMMON_SOCKET_PATHS.
        existsSync env_down p \<longrightarrow> isl (execa env_down ''mysql'' (mysql_args (Some p) None ''root'')))"
    by (simp add: env_down_def TCP_OPTIONS_def COMMON_SOCKET_PATHS_def mysql_args_def)
  show ?thesis
    using distinguishable_errors [of env_none "(DoctorCheck_new, [])"]
          distinguishable_errors [of env_phar "(DoctorCheck_new, [])"]
          distinguishable_errors [of env_down "(DoctorCheck_new, [])"] 1 2 3 4
    by blast
qed

section \<open>The PHP check\<close>

lemma split_on_no_sep: "sep \<notin> set s \<Longrightarrow> split_on sep s = [s]"
  by (induction s) auto

lemma split_on_append: "sep \<notin> set a \<Longrightarrow> split_on sep (a @ sep # b) = a # split_on sep b"
  by (induction a) auto

lemma is_digit_not_dot: "is_digit c \<Longrightarrow> c \<noteq> CHR ''.''"
  by (auto simp: is_digit_def)

lemma split_on_triple:
  assumes "list_all is_digit d1" "list_all is_digit d2" "list_all is_digit d3"
  shows "split_on CHR ''.'' (d1 @ ''.'' @ d2 @ ''.'' @ d3) = [d1, d2, d3]"
proof -
  have n: "CHR ''.'' \<notin> set d1" "CHR ''.'' \<notin> set d2" "CHR ''.'' \<notin> set d3"
    using assms is_digit_not_dot by (auto simp: list_all_iff)
  show ?thesis
    using split_on_append [OF n(1), of "d2 @ ''.'' @ d3"] split_on_append [OF n(2), of d3]
      split_on_no_sep [OF n(3)]
    by simp
qed

lemma match_triple_Some:
  assumes "match_triple s = Some ver"
  shows "\<exists>d1 d2 d3. ver = d1 @ ''.'' @ d2 @ ''.'' @ d3 \<and>
           d1 \<noteq> [] \<and> d2 \<noteq> [] \<and> d3 \<noteq> [] \<and>
           list_all is_digit d1 \<and> list_all is_digit d2 \<and> list_all is_digit d3"
proof -
  have tw: "list_all is_digit (takeWhile is_digit xs)" for xs
    by (auto simp: list_all_iff dest: set_takeWhileD)
  from assms show ?thesis
    unfolding match_triple_def Let_def
    by (auto split: if_splits list.splits intro!: exI tw)
qed

lemma match_version_Some:
  "match_version lit s = Some ver \<Longrightarrow>
   \<exists>d1 d2 d3. ver = d1 @ ''.'' @ d2 @ ''.'' @ d3 \<and>
           d1 \<noteq> [] \<and> d2 \<noteq> [] \<and> d3 \<noteq> [] \<and>
           list_all is_digit d1 \<and> list_all is_digit d2 \<and> list_all is_digit d3"
proof (induction s)
  case Nil
  then show ?case by simp
next
  case (Cons c cs)
  show ?case
  proof (cases "if prefix lit (c # cs) then match_triple (drop (length lit) (c # cs)) else None")
    case None
    with Cons show ?thesis by simp
  next
    case (Some v)
    with Cons.prems have "v = ver" by simp
    with Some have "match_triple (drop (length lit) (c # cs)) = Some ver"
      by (auto split: if_splits)
    then show ?thesis by (rule match_triple_Some)
  qed
qed

lemma str_includes_char: "str_includes s sub \<Longrightarrow> c \<in> set sub \<Longrightarrow> c \<in> set s"
  by (auto simp: str_includes_iff)

lemma set_js_join: "set (js_join sep xs) \<subseteq> set sep \<union> \<Union> (set ` set xs)"
  by (induction sep xs rule: js_join.induct) auto

lemma missing_issues_not_outdated:
  "i \<in> set (missing_issues e extensions) \<Longrightarrow> \<not> str_includes (description i) ''outdated''"
proof
  assume i: "i \<in> set (missing_issues e extensions)" and inc: "str_includes (description i) ''outdated''"
  from i have d: "description i =
      ''Missing PHP extensions: '' @ js_join '', '' (missing_extensions e extensions)"
    by (auto simp: missing_issues_def split: if_splits)
  have "set (missing_extensions e extensions) \<subseteq> set required_extensions"
    by (auto simp: missing_extensions_def)
  then have "\<Union> (set ` set (missing_extensions e extensions)) \<subseteq> \<Union> (set ` set required_extensions)"
    by blast
  with set_js_join [of "'', ''" "missing_extensions e extensions"]
  have "set (js_join '', '' (missing_extensions e extensions)) \<subseteq>
          set '', '' \<union> \<Union> (set ` set required_extensions)"
    by blast
  then have "CHR ''d'' \<notin> set (description i)"
    unfolding d by (auto simp: required_extensions_def)
  moreover from str_includes_char [OF inc, of "CHR ''d''"] have "CHR ''d'' \<in> set (description i)"
    by simp
  ultimately show False by simp
qed

text \<open>
  C6, as the code has it. \<^verbatim>\<open>checkPhp\<close> returns the error \<open>Not installed\<close>, with ok
  false, in three cases: \<^verbatim>\<open>php --version\<close> cannot be invoked, its output holds no
  \<^verbatim>\<open>PHP x.y.z\<close> version, or \<^verbatim>\<open>php -m\<close> cannot be invoked; it then appends the
  not-found issue, after the outdated issue in the third case. In the remaining case it
  returns ok without an error, with the parsed version and the list of missing extensions,
  and the issues it appends are the outdated issue when the version is below the minimum,
  then the missing-extensions issue when that list is not empty.
\<close>

theorem checkPhp_not_installed_cases:
  "\<exists>r new ps.
     checkPhp e (d, tr) = (Inr r, d\<lparr>issues := issues d @ new\<rparr>, tr @ ps) \<and>
     (case execa e ''php'' [''--version''] of
        Inl err \<Rightarrow>
          \<not> ok r \<and> error r = Some ''Not installed'' \<and> new = [php_not_found_issue]
      | Inr stdout \<Rightarrow>
         (case match_version ''PHP '' stdout of
            None \<Rightarrow>
              \<not> ok r \<and> error r = Some ''Not installed'' \<and> new = [php_not_found_issue]
          | Some ver \<Rightarrow>
             (case execa e ''php'' [''-m''] of
                Inl err \<Rightarrow>
                  \<not> ok r \<and> error r = Some ''Not installed'' \<and>
                  new = outdated_issues ver @ [php_not_found_issue]
              | Inr extensions \<Rightarrow>
                  ok r \<and> error r = None \<and> version r = Some ver \<and>
                  missingExtensions r = Some (missing_extensions e extensions) \<and>
                  new = outdated_issues ver @ missing_issues e extensions)))"
proof (cases "execa e ''php'' [''--version'']")
  case (Inl err)
  from checkPhp_version_fails [OF this, of d tr] Inl show ?thesis
    by (simp add: result_def)
next
  case v: (Inr stdout)
  show ?thesis
  proof (cases "match_version ''PHP '' stdout")
    case None
    from checkPhp_unparsable [OF v this, of d tr] v None show ?thesis
      by (simp add: result_def)
  next
    case (Some ver)
    show ?thesis
    proof (cases "execa e ''php'' [''-m'']")
      case (Inl err)
      from checkPhp_listing_fails [OF v Some this, of d tr] v Some Inl show ?thesis
        by (simp add: result_def)
    next
      case (Inr extensions)
      from checkPhp_succeeds [OF v Some this, of d tr] v Some Inr show ?thesis
        by (simp add: result_def)
    qed
  qed
qed

theorem checkPhp_not_installed_cases_witness:
  "\<exists>r.
     checkPhp env_php73 (DoctorCheck_new, []) =
       (Inr r,
        \<lparr>checks = [],
         issues =
           [\<lparr>description = ''PHP 7.3.0 is outdated (minimum: 7.4)'',
             fix_prop = ''Update PHP: brew upgrade php (macOS) or apt upgrade php (Linux)''\<rparr>]\<rparr>,
        [(''php'', [''--version'']), (''php'', [''-m''])]) \<and>
     ok r \<and> error r = None \<and> version r = Some ''7.3.0'' \<and> missingExtensions r = Some []"
proof -
  have v: "execa env_php73 ''php'' [''--version''] = Inr ''PHP 7.3.0 (cli)''"
    by (simp add: env_php73_def)
  have l: "execa env_php73 ''php'' [''-m''] = Inr php_modules"
    by (simp add: env_php73_def)
  have m: "missing_extensions env_php73 php_modules = []"
    by (simp add: missing_extensions_def required_extensions_def ascii_toLowerCase_def
          lower_char_def php_modules_def nl_def env_php73_def env_none_def)
  have o: "outdated_issues ''7.3.0'' =
     [\<lparr>description = ''PHP 7.3.0 is outdated (minimum: 7.4)'',
       fix_prop = ''Update PHP: brew upgrade php (macOS) or apt upgrade php (Linux)''\<rparr>]"
    by (simp add: outdated_issues_def Number_def)
  have mi: "missing_issues env_php73 php_modules = []"
    by (simp add: missing_issues_def m)
  from checkPhp_not_installed_cases [of env_php73 DoctorCheck_new "[]"]
  obtain r new ps where
    "checkPhp env_php73 (DoctorCheck_new, []) =
       (Inr r, DoctorCheck_new\<lparr>issues := issues DoctorCheck_new @ new\<rparr>, [] @ ps)"
    "ok r \<and> error r = None \<and> version r = Some ''7.3.0'' \<and>
     missingExtensions r = Some (missing_extensions env_php73 php_modules) \<and>
     new = outdated_issues ''7.3.0'' @ missing_issues env_php73 php_modules"
    by (auto simp: v l match_triple_def is_digit_def)
  moreover have "ps = [(''php'', [''--version'']), (''php'', [''-m''])]"
    using calculation(1) checkPhp_succeeds [OF v match_version_php73 l, of DoctorCheck_new "[]"]
    by simp
  ultimately show ?thesis
    by (simp add: m o mi DoctorCheck_new_def)
qed

text \<open>
  C6 as stated fails: here the interpreter is invoked successfully, twice, and the check
  returns \<open>Not installed\<close> because the banner has no \<^verbatim>\<open>PHP x.y.z\<close> version.
\<close>

theorem checkPhp_invocable_not_installed:
  "execa env_hhvm ''php'' [''--version''] = Inr ''HipHop VM 3.30.12 (rel)'' \<and>
   execa env_hhvm ''php'' [''-m''] = Inr php_modules \<and>
   fst (checkPhp env_hhvm (DoctorCheck_new, [])) =
     Inr ((result False)\<lparr>error := Some ''Not installed''\<rparr>)"
proof -
  have v: "execa env_hhvm ''php'' [''--version''] = Inr ''HipHop VM 3.30.12 (rel)''"
    by (simp add: env_hhvm_def)
  have m: "match_version ''PHP '' ''HipHop VM 3.30.12 (rel)'' = None"
    by simp
  from checkPhp_unparsable [OF v m, of DoctorCheck_new "[]"] show ?thesis
    by (simp add: env_hhvm_def)
qed

text \<open>
  C9, as the code has it. When \<^verbatim>\<open>php --version\<close> prints a version triple below 7.4 and
  \<^verbatim>\<open>php -m\<close> can be invoked, \<^verbatim>\<open>checkPhp\<close> returns ok with the parsed version, and
  among the issues it appends exactly one has a description containing \<open>outdated\<close>; that
  description also contains the parsed version string.
\<close>

theorem checkPhp_outdated_is_warning:
  assumes v: "execa e ''php'' [''--version''] = Inr stdout"
    and m: "match_version ''PHP '' stdout = Some (d1 @ ''.'' @ d2 @ ''.'' @ d3)"
    and dg: "list_all is_digit d1" "list_all is_digit d2" "list_all is_digit d3"
    and low: "Number d1 < 7 \<or> (Number d1 = 7 \<and> Number d2 < 4)"
    and l: "execa e ''php'' [''-m''] = Inr extensions"
  shows "\<exists>r d' tr' new.
           checkPhp e (d, tr) = (Inr r, d', tr') \<and> ok r \<and> error r = None \<and>
           version r = Some (d1 @ ''.'' @ d2 @ ''.'' @ d3) \<and>
           issues d' = issues d @ new \<and>
           length (filter (\<lambda>i. str_includes (description i) ''outdated'') new) = 1 \<and>
           length (filter (\<lambda>i. str_includes (description i) (d1 @ ''.'' @ d2 @ ''.'' @ d3) \<and>
                               str_includes (description i) ''outdated'') new) = 1"
proof -
  let ?ver = "d1 @ ''.'' @ d2 @ ''.'' @ d3"
  let ?i = "\<lparr>description = ''PHP '' @ ?ver @ '' is outdated (minimum: 7.4)'',
         fix_prop = ''Update PHP: brew upgrade php (macOS) or apt upgrade php (Linux)''\<rparr>"
  have "below_minimum (map Number [d1, d2, d3])"
    using low by simp
  then have "below_minimum (map Number (split_on CHR ''.'' ?ver))"
    by (simp only: split_on_triple [OF dg])
  then have out: "outdated_issues ?ver = [?i]" by (simp add: outdated_issues_def)
  have i1: "str_includes (description ?i) ?ver"
    using str_includes_appendI [of "''PHP ''" ?ver "'' is outdated (minimum: 7.4)''"] by simp
  have i2: "str_includes (description ?i) ''outdated''"
    using str_includes_appendI [of "''PHP '' @ ?ver @ '' is ''" "''outdated''" "'' (minimum: 7.4)''"]
    by simp
  have none: "filter (\<lambda>i. str_includes (description i) ''outdated'') (missing_issues e extensions) = []"
    using missing_issues_not_outdated by (auto simp: filter_empty_conv)
  have none2: "filter (\<lambda>i. str_includes (description i) ?ver \<and>
      str_includes (description i) ''outdated'') (missing_issues e extensions) = []"
    using missing_issues_not_outdated by (auto simp: filter_empty_conv)
  let ?new = "outdated_issues ?ver @ missing_issues e extensions"
  have c1: "length (filter (\<lambda>i. str_includes (description i) ''outdated'') ?new) = 1"
    unfolding filter_append none out using i2 by simp
  have c2: "length (filter (\<lambda>i. str_includes (description i) ?ver \<and>
      str_includes (description i) ''outdated'') ?new) = 1"
    unfolding filter_append none2 out using i1 i2 by simp
  from checkPhp_succeeds [OF v m l, of d tr] c1 c2 show ?thesis
    by (simp add: result_def)
qed

theorem checkPhp_outdated_is_warning_witness:
  "\<exists>r d' tr' new.
     checkPhp env_php73 (DoctorCheck_new, []) = (Inr r, d', tr') \<and> ok r \<and> error r = None \<and>
     version r = Some ''7.3.0'' \<and> issues d' = issues DoctorCheck_new @ new \<and>
     length (filter (\<lambda>i. str_includes (description i) ''outdated'') new) = 1 \<and>
     length (filter (\<lambda>i. str_includes (description i) ''7.3.0'' \<and>
                         str_includes (description i) ''outdated'') new) = 1"
proof -
  have v: "execa env_php73 ''php'' [''--version''] = Inr ''PHP 7.3.0 (cli)''"
    by (simp add: env_php73_def)
  have m: "match_version ''PHP '' ''PHP 7.3.0 (cli)'' = Some (''7'' @ ''.'' @ ''3'' @ ''.'' @ ''0'')"
    using match_version_php73 by simp
  have dg: "list_all is_digit ''7''" "list_all is_digit ''3''" "list_all is_digit ''0''"
    by (simp_all add: is_digit_def)
  have low: "Number ''7'' < 7 \<or> (Number ''7'' = 7 \<and> Number ''3'' < 4)"
    by (simp add: Number_def)
  have l: "execa env_php73 ''php'' [''-m''] = Inr php_modules"
    by (simp add: env_php73_def)
  from checkPhp_outdated_is_warning [OF v m dg low l, of DoctorCheck_new "[]"]
  show ?thesis by simp
qed

text \<open>
  C9 as stated fails: the version 7.3.0 is parsed and is below the minimum, the module
  listing then fails, and the check returns \<open>Not installed\<close> with ok false, after
  appending the outdated issue and the not-found issue.
\<close>

theorem checkPhp_outdated_listing_fails:
  "execa env_php73_broken ''php'' [''--version''] = Inr ''PHP 7.3.0 (cli)'' \<and>
   match_version ''PHP '' ''PHP 7.3.0 (cli)'' = Some ''7.3.0'' \<and>
   below_minimum (map Number (split_on CHR ''.'' ''7.3.0'')) \<and>
   checkPhp env_php73_broken (DoctorCheck_new, []) =
     (Inr ((result False)\<lparr>error := Some ''Not installed''\<rparr>),
      \<lparr>checks = [],
       issues =
         [\<lparr>description = ''PHP 7.3.0 is outdated (minimum: 7.4)'',
           fix_prop = ''Update PHP: brew upgrade php (macOS) or apt upgrade php (Linux)''\<rparr>,
          \<lparr>description = ''PHP not found'',
           fix_prop = ''Install PHP: brew install php (macOS) or apt install php (Linux)''\<rparr>]\<rparr>,
      [(''php'', [''--version'']), (''php'', [''-m''])]) \<and>
   \<not> ok ((result False)\<lparr>error := Some ''Not installed''\<rparr>)"
proof -
  have v: "execa env_php73_broken ''php'' [''--version''] = Inr ''PHP 7.3.0 (cli)''"
    by (simp add: env_php73_broken_def)
  have l: "execa env_php73_broken ''php'' [''-m''] = Inl (Error ''Command failed with exit code 255'')"
    by (simp add: env_php73_broken_def)
  have b: "below_minimum (map Number (split_on CHR ''.'' ''7.3.0''))"
    by (simp add: Number_def)
  show ?thesis
    using checkPhp_listing_fails [OF v match_version_php73 l, of DoctorCheck_new "[]"] v b
    by (simp add: match_triple_def is_digit_def outdated_issues_def DoctorCheck_new_def result_def
          php_not_found_issue_def)
qed

end
